theory Spec2Isabelle
  imports Complex_Main "HOL-Library.Sublist" "HOL-Library.AList" "HOL-Library.Multiset"
begin

section \<open>Common Python values\<close>

text \<open>
  Python strings are modelled as \<open>string\<close>. The literals of the two scripts that are
  not ASCII are written as their UTF-8 bytes; every token, separator and digit the
  scripts search for is ASCII, and an ASCII byte never occurs inside the UTF-8
  encoding of another character, so searching and replacing ASCII substrings gives
  the same result on the bytes as on Python's code points.
\<close>

datatype error =
    TypeError | ValueError | OverflowError | ZoneInfoNotFoundError | OSError

definition digit_char :: "nat \<Rightarrow> char" where
  "digit_char d = ''0123456789'' ! d"

text \<open>\<open>str(n)\<close> for a non-negative integer.\<close>

fun str_nat :: "nat \<Rightarrow> string" where
  "str_nat n = (if n < 10 then [digit_char n] else str_nat (n div 10) @ [digit_char (n mod 10)])"

declare str_nat.simps [simp del]

definition str_int :: "int \<Rightarrow> string" where
  "str_int i = (if i < 0 then ''-'' @ str_nat (nat (- i)) else str_nat (nat i))"

text \<open>\<open>f"{n:02d}"\<close>, \<open>f"{n:03d}"\<close>, ...: decimal digits, zero-padded on the left to a width.\<close>

definition zfill :: "nat \<Rightarrow> string \<Rightarrow> string" where
  "zfill w s = replicate (w - length s) CHR ''0'' @ s"

section \<open>sysinfo.py\<close>

subsection \<open>format_bytes\<close>

text \<open>
  \<open>bytes / 1024**3\<close> is Python's true division. The quotient of an integer below
  \<open>2^53\<close> by a power of two is exact in binary floating point, and \<open>:.2f\<close> rounds the
  exact value of the float to two decimals, ties to even; so the float is modelled by
  the exact rational.
\<close>

definition round_half_even :: "rat \<Rightarrow> int" where
  "round_half_even q =
     (let f = \<lfloor>q\<rfloor>; r = q - of_int f
      in if r < 1 / 2 then f else if 1 / 2 < r then f + 1 else if even f then f else f + 1)"

text \<open>\<open>f"{q:.2f}"\<close> for \<open>q \<ge> 0\<close>.\<close>

definition format_2f :: "rat \<Rightarrow> string" where
  "format_2f q =
     (let h = nat (round_half_even (q * 100))
      in str_nat (h div 100) @ ''.'' @ [digit_char (h mod 100 div 10), digit_char (h mod 10)])"

definition format_bytes :: "nat \<Rightarrow> string" where
  "format_bytes bytes =
     (let gb = of_nat bytes / 1024 ^ 3
      in if gb \<ge> 1 then format_2f gb @ '' GB''
         else format_2f (of_nat bytes / 1024 ^ 2) @ '' MB'')"

subsection \<open>The host as psutil and platform report it\<close>

text \<open>
  A rendered dictionary is an association list in insertion order, as a Python
  \<open>dict\<close> keeps it. Percentages are floats that the script only interpolates into
  text, so a percentage is carried as the text of its \<open>repr\<close>.
\<close>

type_synonym pydict = "(string \<times> string) list"

record svmem =
  vm_total :: nat
  vm_used :: nat
  vm_available :: nat
  vm_percent :: string

record sdiskpart =
  device :: string
  mountpoint :: string

record sdiskusage =
  du_total :: nat
  du_used :: nat
  du_free :: nat
  du_percent :: string

record snicaddr =
  family :: int
  address :: string
  netmask :: string

text \<open>
  What \<open>dict.get\<close> can find under a key: nothing, \<open>None\<close>, or a value.
\<close>

datatype 'a entry = Missing | Null | Val 'a

text \<open>\<open>proc.info\<close>, the dictionary of the four attributes \<open>process_iter\<close> is asked for.\<close>

record proc_info =
  pid :: nat
  name :: "string entry"
  cpu_percent :: "real entry"
  memory_percent :: "real entry"

record host =
  sys_info :: pydict
  cpu_info :: pydict
  virtual_memory :: svmem
  disk_partitions :: "sdiskpart list"
  disk_usage :: "string \<Rightarrow> error + sdiskusage"
  net_if_addrs :: "(string \<times> snicaddr list) list"
  process_iter :: "(error + proc_info) list"

subsection \<open>The collectors\<close>

definition get_cpu_info :: "host \<Rightarrow> pydict" where
  "get_cpu_info h = cpu_info h"

definition get_sys_info :: "host \<Rightarrow> pydict" where
  "get_sys_info h = sys_info h"

definition get_mem_info :: "host \<Rightarrow> pydict" where
  "get_mem_info h =
     (let mem = virtual_memory h
      in [(''total'', format_bytes (vm_total mem)),
          (''used'', format_bytes (vm_used mem)),
          (''free'', format_bytes (vm_available mem)),
          (''usage'', vm_percent mem @ ''%'')])"

definition disk_record :: "sdiskpart \<Rightarrow> sdiskusage \<Rightarrow> pydict" where
  "disk_record part usage =
     [(''device'', device part),
      (''mountpoint'', mountpoint part),
      (''total'', format_bytes (du_total usage)),
      (''used'', format_bytes (du_used usage)),
      (''free'', format_bytes (du_free usage)),
      (''usage'', du_percent usage @ ''%'')]"

text \<open>
  The loop of \<open>get_disk_info\<close>: \<open>disks\<close> is the list built so far; a usage query that
  raises is caught by the bare \<open>except\<close> and the partition is passed over.
\<close>

fun disk_loop :: "(string \<Rightarrow> error + sdiskusage) \<Rightarrow> sdiskpart list \<Rightarrow> pydict list \<Rightarrow> pydict list" where
  "disk_loop du [] disks = disks"
| "disk_loop du (part # rest) disks =
     (case du (mountpoint part) of
        Inr usage \<Rightarrow> disk_loop du rest (disks @ [disk_record part usage])
      | Inl e \<Rightarrow> disk_loop du rest disks)"

definition get_disk_info :: "host \<Rightarrow> pydict list" where
  "get_disk_info h = disk_loop (disk_usage h) (disk_partitions h) []"

fun addr_loop :: "string \<Rightarrow> snicaddr list \<Rightarrow> pydict list \<Rightarrow> pydict list" where
  "addr_loop nm [] networks = networks"
| "addr_loop nm (addr # addrs) networks =
     (if family addr = 2
      then addr_loop nm addrs
             (networks @ [[(''interface'', nm), (''ip'', address addr), (''netmask'', netmask addr)]])
      else addr_loop nm addrs networks)"

fun net_loop :: "(string \<times> snicaddr list) list \<Rightarrow> pydict list \<Rightarrow> pydict list" where
  "net_loop [] networks = networks"
| "net_loop ((nm, addrs) # rest) networks = net_loop rest (addr_loop nm addrs networks)"

definition get_network_info :: "host \<Rightarrow> pydict list" where
  "get_network_info h = net_loop (net_if_addrs h) []"

subsection \<open>get_process_info\<close>

text \<open>The loop over \<open>process_iter\<close>: a process whose \<open>info\<close> raises is passed over.\<close>

fun proc_loop :: "(error + proc_info) list \<Rightarrow> proc_info list \<Rightarrow> proc_info list" where
  "proc_loop [] processes = processes"
| "proc_loop (proc # rest) processes =
     (case proc of
        Inr info \<Rightarrow> proc_loop rest (processes @ [info])
      | Inl e \<Rightarrow> proc_loop rest processes)"

text \<open>The sort key \<open>lambda x: x.get('memory_percent', 0) or 0\<close>.\<close>

definition mem_key :: "proc_info \<Rightarrow> real" where
  "mem_key x =
     (case memory_percent x of
        Missing \<Rightarrow> 0
      | Null \<Rightarrow> 0
      | Val v \<Rightarrow> (if v = 0 then 0 else v))"

text \<open>
  \<open>list.sort(key=..., reverse=...)\<close>. Python's sort is stable; with \<open>reverse=True\<close>
  CPython reverses the list, sorts it stably in ascending order and reverses the
  result, which is what keeps equal keys in their original order.
\<close>

definition list_sort :: "('a \<Rightarrow> 'k::linorder) \<Rightarrow> bool \<Rightarrow> 'a list \<Rightarrow> 'a list" where
  "list_sort key reverse xs =
     (if reverse then rev (sort_key key (rev xs)) else sort_key key xs)"

definition get_process_info :: "host \<Rightarrow> nat \<Rightarrow> proc_info list" where
  "get_process_info h topn =
     (let processes = proc_loop (process_iter h) [];
          processes = list_sort mem_key True processes
      in take topn processes)"

subsection \<open>main: which sections are gathered\<close>

datatype info_type = T_cpu | T_mem | T_disk | T_network | T_process | T_sys | T_all

datatype section_value = Fields pydict | Items "pydict list" | Procs "proc_info list"

text \<open>The section labels: U+7CFB U+7EDF (system), CPU, U+5185 U+5B58 (memory),
  U+78C1 U+76D8 (disk), U+7F51 U+7EDC (network), U+8FDB U+7A0B (process).\<close>

definition label_sys :: string where
  "label_sys = [CHR 0xE7, CHR 0xB3, CHR 0xBB, CHR 0xE7, CHR 0xBB, CHR 0x9F]"

definition label_cpu :: string where
  "label_cpu = ''CPU''"

definition label_mem :: string where
  "label_mem = [CHR 0xE5, CHR 0x86, CHR 0x85, CHR 0xE5, CHR 0xAD, CHR 0x98]"

definition label_disk :: string where
  "label_disk = [CHR 0xE7, CHR 0xA3, CHR 0x81, CHR 0xE7, CHR 0x9B, CHR 0x98]"

definition label_net :: string where
  "label_net = [CHR 0xE7, CHR 0xBD, CHR 0x91, CHR 0xE7, CHR 0xBB, CHR 0x9C]"

definition label_proc :: string where
  "label_proc = [CHR 0xE8, CHR 0xBF, CHR 0x9B, CHR 0xE7, CHR 0xA8, CHR 0x8B]"

text \<open>
  \<open>main\<close> up to the point where \<open>result\<close> is complete (the report that is then
  printed); \<open>result[k] = v\<close> is \<open>AList.update\<close>, which appends a new key at the end.
  The selector is one of argparse's \<open>choices\<close>; \<open>get_process_info()\<close> is called with
  its default \<open>top=10\<close>.
\<close>

definition main_result :: "host \<Rightarrow> info_type \<Rightarrow> (string \<times> section_value) list" where
  "main_result h t =
     (let result = [];
          result = (if t \<in> {T_all, T_sys}
                    then AList.update label_sys (Fields (get_sys_info h)) result else result);
          result = (if t \<in> {T_all, T_cpu}
                    then AList.update label_cpu (Fields (get_cpu_info h)) result else result);
          result = (if t \<in> {T_all, T_mem}
                    then AList.update label_mem (Fields (get_mem_info h)) result else result);
          result = (if t \<in> {T_all, T_disk}
                    then AList.update label_disk (Items (get_disk_info h)) result else result);
          result = (if t \<in> {T_all, T_network}
                    then AList.update label_net (Items (get_network_info h)) result else result);
          result = (if t = T_process
                    then AList.update label_proc (Procs (get_process_info h 10)) result else result)
      in result)"

section \<open>time.py\<close>

subsection \<open>Text\<close>

text \<open>
  The weekday tables: U+661F U+671F followed by U+4E00, U+4E8C, U+4E09, U+56DB, U+4E94,
  U+516D, U+65E5 (Monday to Sunday), and U+5468 followed by the same seven.
\<close>

definition WEEKDAYS :: "string list" where
  "WEEKDAYS =
     [[CHR 0xE6, CHR 0x98, CHR 0x9F, CHR 0xE6, CHR 0x9C, CHR 0x9F, CHR 0xE4, CHR 0xB8, CHR 0x80],
      [CHR 0xE6, CHR 0x98, CHR 0x9F, CHR 0xE6, CHR 0x9C, CHR 0x9F, CHR 0xE4, CHR 0xBA, CHR 0x8C],
      [CHR 0xE6, CHR 0x98, CHR 0x9F, CHR 0xE6, CHR 0x9C, CHR 0x9F, CHR 0xE4, CHR 0xB8, CHR 0x89],
      [CHR 0xE6, CHR 0x98, CHR 0x9F, CHR 0xE6, CHR 0x9C, CHR 0x9F, CHR 0xE5, CHR 0x9B, CHR 0x9B],
      [CHR 0xE6, CHR 0x98, CHR 0x9F, CHR 0xE6, CHR 0x9C, CHR 0x9F, CHR 0xE4, CHR 0xBA, CHR 0x94],
      [CHR 0xE6, CHR 0x98, CHR 0x9F, CHR 0xE6, CHR 0x9C, CHR 0x9F, CHR 0xE5, CHR 0x85, CHR 0xAD],
      [CHR 0xE6, CHR 0x98, CHR 0x9F, CHR 0xE6, CHR 0x9C, CHR 0x9F, CHR 0xE6, CHR 0x97, CHR 0xA5]]"

definition WEEKDAYS_SHORT :: "string list" where
  "WEEKDAYS_SHORT =
     [[CHR 0xE5, CHR 0x91, CHR 0xA8, CHR 0xE4, CHR 0xB8, CHR 0x80],
      [CHR 0xE5, CHR 0x91, CHR 0xA8, CHR 0xE4, CHR 0xBA, CHR 0x8C],
      [CHR 0xE5, CHR 0x91, CHR 0xA8, CHR 0xE4, CHR 0xB8, CHR 0x89],
      [CHR 0xE5, CHR 0x91, CHR 0xA8, CHR 0xE5, CHR 0x9B, CHR 0x9B],
      [CHR 0xE5, CHR 0x91, CHR 0xA8, CHR 0xE4, CHR 0xBA, CHR 0x94],
      [CHR 0xE5, CHR 0x91, CHR 0xA8, CHR 0xE5, CHR 0x85, CHR 0xAD],
      [CHR 0xE5, CHR 0x91, CHR 0xA8, CHR 0xE6, CHR 0x97, CHR 0xA5]]"

text \<open>The direction words of \<open>time_diff\<close>: U+8DDD U+79BB ("until") and
  U+5DF2 U+8FC7 U+53BB ("already past").\<close>

definition word_future :: string where
  "word_future = [CHR 0xE8, CHR 0xB7, CHR 0x9D, CHR 0xE7, CHR 0xA6, CHR 0xBB]"

definition word_past :: string where
  "word_past = [CHR 0xE5, CHR 0xB7, CHR 0xB2, CHR 0xE8, CHR 0xBF, CHR 0x87, CHR 0xE5, CHR 0x8E, CHR 0xBB]"

text \<open>U+8FD8 U+6709 ("remaining"), U+5929 ("days"), U+5C0F U+65F6 ("hours"),
  U+5206 U+949F ("minutes").\<close>

definition word_remaining :: string where
  "word_remaining = [CHR 0xE8, CHR 0xBF, CHR 0x98, CHR 0xE6, CHR 0x9C, CHR 0x89]"

definition word_days :: string where
  "word_days = [CHR 0xE5, CHR 0xA4, CHR 0xA9]"

definition word_hours :: string where
  "word_hours = [CHR 0xE5, CHR 0xB0, CHR 0x8F, CHR 0xE6, CHR 0x97, CHR 0xB6]"

definition word_minutes :: string where
  "word_minutes = [CHR 0xE5, CHR 0x88, CHR 0x86, CHR 0xE9, CHR 0x92, CHR 0x9F]"

text \<open>The diagnostic of \<open>time_diff\<close>: U+65E0 U+6548 U+65E5 U+671F U+683C U+5F0F U+FF0C
  U+8BF7 U+4F7F U+7528, the first shape, U+6216, the second shape.\<close>

definition invalid_date_format :: string where
  "invalid_date_format =
     [CHR 0xE6, CHR 0x97, CHR 0xA0, CHR 0xE6, CHR 0x95, CHR 0x88, CHR 0xE6, CHR 0x97, CHR 0xA5,
      CHR 0xE6, CHR 0x9C, CHR 0x9F, CHR 0xE6, CHR 0xA0, CHR 0xBC, CHR 0xE5, CHR 0xBC, CHR 0x8F,
      CHR 0xEF, CHR 0xBC, CHR 0x8C, CHR 0xE8, CHR 0xAF, CHR 0xB7, CHR 0xE4, CHR 0xBD, CHR 0xBF,
      CHR 0xE7, CHR 0x94, CHR 0xA8]
     @ '' YYYY-MM-DD '' @ [CHR 0xE6, CHR 0x88, CHR 0x96] @ '' YYYY-MM-DD HH:mm:ss''"

text \<open>The diagnostic of \<open>timestamp_to_date\<close>: U+65E0 U+6548 U+65F6 U+95F4 U+6233.\<close>

definition invalid_timestamp :: string where
  "invalid_timestamp =
     [CHR 0xE6, CHR 0x97, CHR 0xA0, CHR 0xE6, CHR 0x95, CHR 0x88, CHR 0xE6, CHR 0x97, CHR 0xB6,
      CHR 0xE9, CHR 0x97, CHR 0xB4, CHR 0xE6, CHR 0x88, CHR 0xB3]"

text \<open>The line labels of \<open>main\<close>: U+5F53 U+524D U+65F6 U+95F4 U+6233 (current timestamp),
  U+7CFB U+7EDF U+65F6 U+95F4 (system time), UTC U+65F6 U+95F4, U+65E0 U+6548 U+65F6 U+533A
  (invalid time zone), U+5E38 U+7528 U+65F6 U+533A (common time zones) and the warning
  U+8B66 U+544A: U+9700 U+8981 U+5B89 U+88C5 zoneinfo U+652F U+6301 (Python 3.9+).\<close>

definition label_unix :: string where
  "label_unix =
     [CHR 0xE5, CHR 0xBD, CHR 0x93, CHR 0xE5, CHR 0x89, CHR 0x8D, CHR 0xE6, CHR 0x97, CHR 0xB6,
      CHR 0xE9, CHR 0x97, CHR 0xB4, CHR 0xE6, CHR 0x88, CHR 0xB3] @ '': ''"

definition label_system_time :: string where
  "label_system_time =
     [CHR 0xE7, CHR 0xB3, CHR 0xBB, CHR 0xE7, CHR 0xBB, CHR 0x9F, CHR 0xE6, CHR 0x97, CHR 0xB6,
      CHR 0xE9, CHR 0x97, CHR 0xB4] @ '': ''"

definition label_utc_time :: string where
  "label_utc_time = ''UTC '' @ [CHR 0xE6, CHR 0x97, CHR 0xB6, CHR 0xE9, CHR 0x97, CHR 0xB4] @ '': ''"

definition label_invalid_zone :: string where
  "label_invalid_zone =
     [CHR 0xE6, CHR 0x97, CHR 0xA0, CHR 0xE6, CHR 0x95, CHR 0x88, CHR 0xE6, CHR 0x97, CHR 0xB6,
      CHR 0xE5, CHR 0x8C, CHR 0xBA] @ '': ''"

definition common_zones :: string where
  "common_zones =
     [CHR 0xE5, CHR 0xB8, CHR 0xB8, CHR 0xE7, CHR 0x94, CHR 0xA8, CHR 0xE6, CHR 0x97, CHR 0xB6,
      CHR 0xE5, CHR 0x8C, CHR 0xBA]
     @ '': Asia/Shanghai, Asia/Tokyo, America/New_York, Europe/London''"

definition zoneinfo_warning :: string where
  "zoneinfo_warning =
     [CHR 0xE8, CHR 0xAD, CHR 0xA6, CHR 0xE5, CHR 0x91, CHR 0x8A] @ '': ''
     @ [CHR 0xE9, CHR 0x9C, CHR 0x80, CHR 0xE8, CHR 0xA6, CHR 0x81, CHR 0xE5, CHR 0xAE, CHR 0x89,
        CHR 0xE8, CHR 0xA3, CHR 0x85]
     @ '' zoneinfo '' @ [CHR 0xE6, CHR 0x94, CHR 0xAF, CHR 0xE6, CHR 0x8C, CHR 0x81]
     @ '' (Python 3.9+)''"

definition default_format :: string where
  "default_format = ''YYYY-MM-DD HH:mm:ss''"

subsection \<open>Strings and integers\<close>

text \<open>
  \<open>s.replace(old, new)\<close>: every occurrence of \<open>old\<close>, found from the left and not
  overlapping, is replaced; the replacement is not searched again. (With an empty
  \<open>old\<close> Python puts \<open>new\<close> before every character and at the end.)
\<close>

fun replace :: "string \<Rightarrow> string \<Rightarrow> string \<Rightarrow> string" where
  "replace old new [] = (if old = [] then new else [])"
| "replace old new (c # cs) =
     (if old = [] then new @ c # replace old new cs
      else if prefix old (c # cs) then new @ replace old new (drop (length old - 1) cs)
      else c # replace old new cs)"

text \<open>
  \<open>int(s)\<close> on a string: surrounding whitespace is stripped, a sign may follow, then
  decimal digits in which single underscores may stand between two digits. The model
  reads ASCII; Python also accepts the decimal digits and the spaces of other scripts,
  which this model rejects.
\<close>

definition is_space :: "char \<Rightarrow> bool" where
  "is_space c =
     (c \<in> set [CHR '' '', CHR 0x09, CHR 0x0A, CHR 0x0B, CHR 0x0C, CHR 0x0D,
               CHR 0x1C, CHR 0x1D, CHR 0x1E, CHR 0x1F])"

definition strip :: "string \<Rightarrow> string" where
  "strip s = rev (dropWhile is_space (rev (dropWhile is_space s)))"

definition is_digit :: "char \<Rightarrow> bool" where
  "is_digit c = (c \<in> set ''0123456789'')"

definition digit_val :: "char \<Rightarrow> nat" where
  "digit_val c = of_char c - 48"

fun int_digits :: "nat \<Rightarrow> string \<Rightarrow> nat option" where
  "int_digits acc [] = Some acc"
| "int_digits acc [c] = (if is_digit c then Some (acc * 10 + digit_val c) else None)"
| "int_digits acc (c # d # cs) =
     (if is_digit c then int_digits (acc * 10 + digit_val c) (d # cs)
      else if c = CHR ''_'' \<and> is_digit d then int_digits (acc * 10 + digit_val d) cs
      else None)"

definition py_int :: "string \<Rightarrow> int option" where
  "py_int s =
     (let t = strip s;
          neg = (take 1 t = ''-'');
          u = (if take 1 t = ''-'' \<or> take 1 t = ''+'' then drop 1 t else t)
      in case u of
           [] \<Rightarrow> None
         | d # ds \<Rightarrow>
             if is_digit d
             then map_option (\<lambda>n. if neg then - int n else int n) (int_digits (digit_val d) ds)
             else None)"

subsection \<open>datetime and timedelta\<close>

text \<open>
  A \<open>datetime\<close>; \<open>tzinfo\<close> is \<open>None\<close> for a naive value and otherwise the UTC offset,
  in seconds, that its time zone gives it.
\<close>

record datetime =
  year :: nat
  month :: nat
  day :: nat
  hour :: nat
  minute :: nat
  second :: nat
  microsecond :: nat
  tzinfo :: "int option"

text \<open>The proleptic Gregorian calendar of Python's \<open>datetime\<close> module.\<close>

definition is_leap :: "nat \<Rightarrow> bool" where
  "is_leap y = (y mod 4 = 0 \<and> (y mod 100 \<noteq> 0 \<or> y mod 400 = 0))"

definition DAYS_IN_MONTH :: "nat list" where
  "DAYS_IN_MONTH = [0, 31, 28, 31, 30, 31, 30, 31, 31, 30, 31, 30, 31]"

definition DAYS_BEFORE_MONTH :: "nat list" where
  "DAYS_BEFORE_MONTH = [0, 0, 31, 59, 90, 120, 151, 181, 212, 243, 273, 304, 334]"

definition days_before_year :: "nat \<Rightarrow> nat" where
  "days_before_year y = (let y1 = y - 1 in y1 * 365 + y1 div 4 - y1 div 100 + y1 div 400)"

definition days_in_month :: "nat \<Rightarrow> nat \<Rightarrow> nat" where
  "days_in_month y m = (if m = 2 \<and> is_leap y then 29 else DAYS_IN_MONTH ! m)"

definition days_before_month :: "nat \<Rightarrow> nat \<Rightarrow> nat" where
  "days_before_month y m = DAYS_BEFORE_MONTH ! m + (if 2 < m \<and> is_leap y then 1 else 0)"

definition ymd2ord :: "nat \<Rightarrow> nat \<Rightarrow> nat \<Rightarrow> nat" where
  "ymd2ord y m d = days_before_year y + days_before_month y m + d"

definition ord2ymd :: "nat \<Rightarrow> nat \<times> nat \<times> nat" where
  "ord2ymd ordinal =
     (let n = ordinal - 1;
          n400 = n div 146097; n = n mod 146097;
          n100 = n div 36524; n = n mod 36524;
          n4 = n div 1461; n = n mod 1461;
          n1 = n div 365; n = n mod 365;
          y = n400 * 400 + 1 + n100 * 100 + n4 * 4 + n1
      in if n1 = 4 \<or> n100 = 4 then (y - 1, 12, 31)
         else
           let leapyear = (n1 = 3 \<and> (n4 \<noteq> 24 \<or> n100 = 3));
               m = (n + 50) div 32;
               preceding = DAYS_BEFORE_MONTH ! m + (if 2 < m \<and> leapyear then 1 else 0)
           in if n < preceding
              then (y, m - 1,
                    n - (preceding
                         - (DAYS_IN_MONTH ! (m - 1) + (if m - 1 = 2 \<and> leapyear then 1 else 0))) + 1)
              else (y, m, n - preceding + 1))"

definition toordinal :: "datetime \<Rightarrow> nat" where
  "toordinal dt = ymd2ord (year dt) (month dt) (day dt)"

definition weekday :: "datetime \<Rightarrow> nat" where
  "weekday dt = (toordinal dt + 6) mod 7"

text \<open>
  A \<open>timedelta\<close> is kept normalised: \<open>0 \<le> seconds < 86400\<close> and
  \<open>0 \<le> microseconds < 1000000\<close>, the sign carried by \<open>days\<close>.
\<close>

record timedelta =
  days :: int
  seconds :: int
  microseconds :: int

definition new_timedelta :: "int \<Rightarrow> int \<Rightarrow> int \<Rightarrow> timedelta" where
  "new_timedelta d s us =
     (let s = s + us div 1000000; us = us mod 1000000;
          d = d + s div 86400; s = s mod 86400
      in \<lparr>days = d, seconds = s, microseconds = us\<rparr>)"

definition td_neg :: "timedelta \<Rightarrow> timedelta" where
  "td_neg td = new_timedelta (- days td) (- seconds td) (- microseconds td)"

definition td_abs :: "timedelta \<Rightarrow> timedelta" where
  "td_abs td = (if days td < 0 then td_neg td else td)"

text \<open>
  \<open>total_seconds()\<close> divides this integer by \<open>10**6\<close>; its sign is the sign of the
  integer, which is all \<open>time_diff\<close> asks of it.
\<close>

definition total_microseconds :: "timedelta \<Rightarrow> int" where
  "total_microseconds td = (days td * 86400 + seconds td) * 1000000 + microseconds td"

text \<open>\<open>self - other\<close> on two datetimes; mixing a naive and an aware value raises.\<close>

definition datetime_sub :: "datetime \<Rightarrow> datetime \<Rightarrow> error + timedelta" where
  "datetime_sub self other =
     (let days1 = int (toordinal self);
          days2 = int (toordinal other);
          secs1 = int (second self + minute self * 60 + hour self * 3600);
          secs2 = int (second other + minute other * 60 + hour other * 3600);
          base = new_timedelta (days1 - days2) (secs1 - secs2)
                   (int (microsecond self) - int (microsecond other))
      in if tzinfo self = tzinfo other then Inr base
         else case (tzinfo self, tzinfo other) of
                (Some myoff, Some otoff) \<Rightarrow>
                  Inr (new_timedelta (days base) (seconds base + otoff - myoff) (microseconds base))
              | _ \<Rightarrow> Inl TypeError)"

text \<open>Seconds since 1970-01-01 00:00:00 of the wall-clock fields (ordinal 719163).\<close>

definition epoch_seconds :: "datetime \<Rightarrow> int" where
  "epoch_seconds dt =
     (int (toordinal dt) - 719163) * 86400
       + int (hour dt * 3600 + minute dt * 60 + second dt)"

definition from_epoch :: "int \<Rightarrow> nat \<Rightarrow> int option \<Rightarrow> datetime" where
  "from_epoch t us tz =
     (let (y, m, d) = ord2ymd (nat (719163 + t div 86400)); s = nat (t mod 86400)
      in \<lparr>year = y, month = m, day = d, hour = s div 3600, minute = s mod 3600 div 60,
          second = s mod 60, microsecond = us, tzinfo = tz\<rparr>)"

subsection \<open>The runtime\<close>

text \<open>
  What the interpreter and the operating system supply. \<open>ZoneInfo\<close> is \<open>None\<close> when
  neither import of the class succeeded; otherwise it maps a key to a zone (the UTC
  offset in force at an instant, given in epoch seconds) or raises. \<open>fromisoformat\<close>,
  \<open>strptime\<close> and \<open>strftime\<close> are the library's, whose grammar depends on the Python
  version and the C library; \<open>mktime\<close> and \<open>utcoffset_at\<close> are the local time zone.
\<close>

record runtime =
  clock :: datetime
  mktime :: "datetime \<Rightarrow> int"
  utcoffset_at :: "int \<Rightarrow> int"
  ZoneInfo :: "(string \<Rightarrow> error + (int \<Rightarrow> int)) option"
  fromisoformat :: "string \<Rightarrow> error + datetime"
  strptime :: "string \<Rightarrow> string \<Rightarrow> error + datetime"
  strftime :: "datetime \<Rightarrow> string \<Rightarrow> string"

text \<open>\<open>datetime.now()\<close>: the local wall clock, always naive.\<close>

definition datetime_now :: "runtime \<Rightarrow> datetime" where
  "datetime_now R = (clock R)\<lparr>tzinfo := None\<rparr>"

text \<open>\<open>dt.astimezone(tz)\<close>; a naive value is taken to be local time.\<close>

definition astimezone :: "runtime \<Rightarrow> datetime \<Rightarrow> (int \<Rightarrow> int) \<Rightarrow> datetime" where
  "astimezone R dt tz =
     (let t = (case tzinfo dt of None \<Rightarrow> mktime R dt | Some off \<Rightarrow> epoch_seconds dt - off);
          off = tz t
      in from_epoch (t + off) (microsecond dt) (Some off))"

definition timezone_utc :: "int \<Rightarrow> int" where
  "timezone_utc t = 0"

text \<open>
  \<open>datetime.fromtimestamp(t)\<close> for whole seconds \<open>t\<close> and a microsecond part: local
  time, naive; an instant outside the years 1 to 9999 raises.
\<close>

definition fromtimestamp :: "runtime \<Rightarrow> int \<Rightarrow> nat \<Rightarrow> error + datetime" where
  "fromtimestamp R t us =
     (let w = t + utcoffset_at R t; ordinal = 719163 + w div 86400
      in if ordinal < 1 \<or> 3652059 < ordinal then Inl OverflowError
         else Inr (from_epoch w us None))"

text \<open>\<open>int(dt.timestamp())\<close> of a naive value: \<open>int\<close> truncates towards zero.\<close>

definition timestamp_int :: "runtime \<Rightarrow> datetime \<Rightarrow> int" where
  "timestamp_int R dt =
     (let t = mktime R dt in if t < 0 \<and> 0 < microsecond dt then t + 1 else t)"

subsection \<open>format_time\<close>

text \<open>
  The twelve replacements of \<open>format_time\<close>, in the order of the source; the result
  is the pattern handed to \<open>strftime\<close>.
\<close>

definition token_subst :: "datetime \<Rightarrow> string \<Rightarrow> string" where
  "token_subst dt fmt =
     (let result = fmt;
          result = replace ''YYYY'' ''%Y'' result;
          result = replace ''YY'' ''%y'' result;
          result = replace ''MM'' ''%m'' result;
          result = replace ''DD'' ''%d'' result;
          result = replace ''HH'' ''%H'' result;
          result = replace ''mm'' ''%M'' result;
          result = replace ''ss'' ''%S'' result;
          result = replace ''SSS'' (zfill 3 (str_nat (microsecond dt div 1000))) result;
          result = replace ''dddd'' (WEEKDAYS ! weekday dt) result;
          result = replace ''ddd'' (WEEKDAYS_SHORT ! weekday dt) result;
          result = replace ''A'' (if hour dt < 12 then ''AM'' else ''PM'') result;
          result = replace ''a'' (if hour dt < 12 then ''am'' else ''pm'') result
      in result)"

text \<open>An argument that is \<open>None\<close> or the empty string is false in a condition.\<close>

fun truthy :: "string option \<Rightarrow> bool" where
  "truthy None = False"
| "truthy (Some s) = (s \<noteq> [])"

definition format_time :: "runtime \<Rightarrow> datetime \<Rightarrow> string \<Rightarrow> string option \<Rightarrow> error + string" where
  "format_time R dt fmt tz =
     (case (case (tz, ZoneInfo R) of
              (Some key, Some zoneinfo) \<Rightarrow>
                if key \<noteq> []
                then (case zoneinfo key of
                        Inl e \<Rightarrow> Inl e
                      | Inr zone \<Rightarrow> Inr (astimezone R dt zone))
                else Inr dt
            | (Some key, None) \<Rightarrow>
                if key \<noteq> [] then Inr (astimezone R dt timezone_utc) else Inr dt
            | (None, _) \<Rightarrow> Inr dt) of
        Inl e \<Rightarrow> Inl e
      | Inr dt \<Rightarrow> Inr (strftime R dt (token_subst dt fmt)))"

subsection \<open>time_diff\<close>

text \<open>The two nested \<open>try\<close> blocks: \<open>None\<close> when both parsers raise.\<close>

definition parse_target :: "runtime \<Rightarrow> string \<Rightarrow> datetime option" where
  "parse_target R target_str =
     (case fromisoformat R (replace ''Z'' ''+00:00'' target_str) of
        Inr target \<Rightarrow> Some target
      | Inl e \<Rightarrow>
          (case strptime R target_str ''%Y-%m-%d'' of
             Inr target \<Rightarrow> Some target
           | Inl e' \<Rightarrow> None))"

text \<open>
  \<open>Inl\<close> is an exception that leaves \<open>time_diff\<close>: the subtraction stands outside
  the \<open>try\<close> blocks.
\<close>

definition time_diff :: "runtime \<Rightarrow> string \<Rightarrow> error + string" where
  "time_diff R target_str =
     (case parse_target R target_str of
        None \<Rightarrow> Inr invalid_date_format
      | Some target \<Rightarrow>
          (let now = datetime_now R
           in case datetime_sub target now of
                Inl e \<Rightarrow> Inl e
              | Inr diff \<Rightarrow>
                  (let abs_diff = td_abs diff;
                       dys = days abs_diff;
                       hours = seconds abs_diff div 3600;
                       remainder = seconds abs_diff mod 3600;
                       minutes = remainder div 60;
                       direction = (if 0 < total_microseconds diff then word_future else word_past);
                       result = direction @ '' '' @ strftime R target ''%Y-%m-%d %H:%M:%S'';
                       result = (if 0 < dys
                                 then result @ '' '' @ word_remaining @ '' '' @ str_int dys @ '' '' @ word_days
                                 else result);
                       result = (if 0 < hours
                                 then result @ '' '' @ str_int hours @ '' '' @ word_hours
                                 else result);
                       result = (if 0 < minutes \<and> dys = 0
                                 then result @ '' '' @ str_int minutes @ '' '' @ word_minutes
                                 else result)
                   in Inr result)))"

subsection \<open>timestamp_to_date\<close>

text \<open>
  The body of the \<open>try\<close>. \<open>ts < 1e12\<close> compares an integer with a float, which Python
  does exactly. \<open>ts / 1000\<close> is a float; for an instant that \<open>fromtimestamp\<close> accepts
  it lies within \<open>2^-15\<close> seconds of the exact quotient, so its whole seconds are
  \<open>ts div 1000\<close> (the microsecond field, which is not printed, may be off by the
  rounding).
\<close>

definition timestamp_body :: "runtime \<Rightarrow> string \<Rightarrow> error + string" where
  "timestamp_body R ts_str =
     (case py_int ts_str of
        None \<Rightarrow> Inl ValueError
      | Some ts \<Rightarrow>
          (case (if ts < 10 ^ 12 then fromtimestamp R ts 0
                 else fromtimestamp R (ts div 1000) (nat (ts mod 1000) * 1000)) of
             Inl e \<Rightarrow> Inl e
           | Inr dt \<Rightarrow> Inr (strftime R dt ''%Y-%m-%d %H:%M:%S'')))"

definition timestamp_to_date :: "runtime \<Rightarrow> string \<Rightarrow> string" where
  "timestamp_to_date R ts_str =
     (case timestamp_body R ts_str of
        Inr text \<Rightarrow> text
      | Inl e \<Rightarrow> invalid_timestamp)"

subsection \<open>main\<close>

record args =
  timezone :: "string option"
  format :: string
  diff :: "string option"
  timestamp :: "string option"
  unix :: bool

text \<open>
  The lines printed, in order, and the exception that ended the run, if one did.
\<close>

definition time_main :: "runtime \<Rightarrow> args \<Rightarrow> string list \<times> error option" where
  "time_main R a =
     (if unix a then ([label_unix @ str_int (timestamp_int R (datetime_now R))], None)
      else if truthy (timestamp a)
      then ([timestamp_to_date R (case timestamp a of Some ts \<Rightarrow> ts | None \<Rightarrow> [])], None)
      else if truthy (diff a)
      then (case time_diff R (case diff a of Some d \<Rightarrow> d | None \<Rightarrow> []) of
              Inr text \<Rightarrow> ([text], None)
            | Inl e \<Rightarrow> ([], Some e))
      else
        (let now = datetime_now R
         in case format_time R now (format a) None of
              Inl e \<Rightarrow> ([], Some e)
            | Inr local_text \<Rightarrow>
                (let out = [label_system_time @ local_text]
                 in case (if \<not> truthy (timezone a) \<and> format a = default_format
                          then (case format_time R now (format a) (Some ''UTC'') of
                                  Inl e \<Rightarrow> Inl e
                                | Inr utc_text \<Rightarrow> Inr (out @ [label_utc_time @ utc_text]))
                          else Inr out) of
                      Inl e \<Rightarrow> (out, Some e)
                    | Inr out \<Rightarrow>
                        (case timezone a of
                           None \<Rightarrow> (out, None)
                         | Some key \<Rightarrow>
                             if key = [] then (out, None)
                             else (case ZoneInfo R of
                                     None \<Rightarrow> (out @ [zoneinfo_warning], None)
                                   | Some zoneinfo \<Rightarrow>
                                       (case format_time R now (format a) (Some key) of
                                          Inr zone_text \<Rightarrow> (out @ [key @ '': '' @ zone_text], None)
                                        | Inl e \<Rightarrow>
                                            (out @ [label_invalid_zone @ key, common_zones], None)))))))"

subsection \<open>A runtime to evaluate with\<close>

text \<open>
  The general theorems below hold for every runtime. To run the scripts on concrete
  inputs, the library functions are instantiated with the fragment of their behaviour
  that every CPython from 3.7 on and every C library share; outside the fragment the
  instance raises \<open>ValueError\<close> (parsers) or leaves the text as it stands (\<open>strftime\<close>),
  where a particular Python may accept or expand more.
\<close>

text \<open>
  \<open>strftime\<close>: the seven directives the tokens of \<open>format_time\<close> produce, \<open>%%\<close>, and
  literal text.
\<close>

definition directive :: "datetime \<Rightarrow> char \<Rightarrow> string" where
  "directive dt c =
     (if c = CHR ''Y'' then zfill 4 (str_nat (year dt))
      else if c = CHR ''y'' then zfill 2 (str_nat (year dt mod 100))
      else if c = CHR ''m'' then zfill 2 (str_nat (month dt))
      else if c = CHR ''d'' then zfill 2 (str_nat (day dt))
      else if c = CHR ''H'' then zfill 2 (str_nat (hour dt))
      else if c = CHR ''M'' then zfill 2 (str_nat (minute dt))
      else if c = CHR ''S'' then zfill 2 (str_nat (second dt))
      else if c = CHR ''%'' then ''%''
      else [CHR ''%'', c])"

fun c_strftime :: "datetime \<Rightarrow> string \<Rightarrow> string" where
  "c_strftime dt (c # d # cs) =
     (if c = CHR ''%'' then directive dt d @ c_strftime dt cs else c # c_strftime dt (d # cs))"
| "c_strftime dt cs = cs"

definition digits_nat :: "string \<Rightarrow> nat option" where
  "digits_nat s =
     (if s \<noteq> [] \<and> list_all is_digit s then Some (foldl (\<lambda>acc c. acc * 10 + digit_val c) 0 s)
      else None)"

definition valid_date :: "nat \<Rightarrow> nat \<Rightarrow> nat \<Rightarrow> bool" where
  "valid_date y m d = (1 \<le> y \<and> y \<le> 9999 \<and> 1 \<le> m \<and> m \<le> 12 \<and> 1 \<le> d \<and> d \<le> days_in_month y m)"

text \<open>\<open>YYYY-MM-DD\<close>, ten characters.\<close>

definition iso_date :: "string \<Rightarrow> (nat \<times> nat \<times> nat) option" where
  "iso_date s =
     (case (digits_nat (take 4 s), digits_nat (take 2 (drop 5 s)), digits_nat (drop 8 s)) of
        (Some y, Some m, Some d) \<Rightarrow>
          if length s = 10 \<and> take 1 (drop 4 s) = ''-'' \<and> take 1 (drop 7 s) = ''-'' \<and> valid_date y m d
          then Some (y, m, d) else None
      | _ \<Rightarrow> None)"

text \<open>\<open>HH:MM:SS\<close>, eight characters.\<close>

definition iso_time :: "string \<Rightarrow> (nat \<times> nat \<times> nat) option" where
  "iso_time s =
     (case (digits_nat (take 2 s), digits_nat (take 2 (drop 3 s)), digits_nat (drop 6 s)) of
        (Some h, Some m, Some sec) \<Rightarrow>
          if length s = 8 \<and> take 1 (drop 2 s) = '':'' \<and> take 1 (drop 5 s) = '':''
             \<and> h < 24 \<and> m < 60 \<and> sec < 60
          then Some (h, m, sec) else None
      | _ \<Rightarrow> None)"

text \<open>\<open>+HH:MM\<close> or \<open>-HH:MM\<close>, six characters: the offset in seconds.\<close>

definition iso_offset :: "string \<Rightarrow> int option" where
  "iso_offset s =
     (case (digits_nat (take 2 (drop 1 s)), digits_nat (drop 4 s)) of
        (Some h, Some m) \<Rightarrow>
          if length s = 6 \<and> take 1 (drop 3 s) = '':'' \<and> h < 24 \<and> m < 60
          then (if take 1 s = ''+'' then Some (int (h * 3600 + m * 60))
                else if take 1 s = ''-'' then Some (- int (h * 3600 + m * 60))
                else None)
          else None
      | _ \<Rightarrow> None)"

text \<open>
  \<open>datetime.fromisoformat\<close> on the three shapes \<open>YYYY-MM-DD\<close>,
  \<open>YYYY-MM-DD?HH:MM:SS\<close> (any one character between date and time) and the latter
  followed by \<open>+HH:MM\<close> or \<open>-HH:MM\<close>.
\<close>

definition iso_fragment :: "string \<Rightarrow> error + datetime" where
  "iso_fragment s =
     (case iso_date (take 10 s) of
        None \<Rightarrow> Inl ValueError
      | Some (y, m, d) \<Rightarrow>
          if length s = 10
          then Inr \<lparr>year = y, month = m, day = d, hour = 0, minute = 0, second = 0,
                    microsecond = 0, tzinfo = None\<rparr>
          else if length s = 19
          then (case iso_time (drop 11 s) of
                  Some (h, mi, sec) \<Rightarrow>
                    Inr \<lparr>year = y, month = m, day = d, hour = h, minute = mi, second = sec,
                         microsecond = 0, tzinfo = None\<rparr>
                | None \<Rightarrow> Inl ValueError)
          else if length s = 25
          then (case (iso_time (take 8 (drop 11 s)), iso_offset (drop 19 s)) of
                  (Some (h, mi, sec), Some off) \<Rightarrow>
                    Inr \<lparr>year = y, month = m, day = d, hour = h, minute = mi, second = sec,
                         microsecond = 0, tzinfo = Some off\<rparr>
                | _ \<Rightarrow> Inl ValueError)
          else Inl ValueError)"

fun split_on :: "char \<Rightarrow> string \<Rightarrow> string list" where
  "split_on sep [] = [[]]"
| "split_on sep (c # cs) =
     (if c = sep then [] # split_on sep cs
      else (case split_on sep cs of
              w # ws \<Rightarrow> (c # w) # ws
            | [] \<Rightarrow> [[c]]))"

text \<open>
  \<open>datetime.strptime(s, '%Y-%m-%d')\<close>: a four-digit year and a month and a day of
  one or two digits, separated by hyphens.
\<close>

definition ymd_fragment :: "string \<Rightarrow> string \<Rightarrow> error + datetime" where
  "ymd_fragment s fmt =
     (if fmt \<noteq> ''%Y-%m-%d'' then Inl ValueError
      else case split_on CHR ''-'' s of
             [ys, ms, ds] \<Rightarrow>
               (case (digits_nat ys, digits_nat ms, digits_nat ds) of
                  (Some y, Some m, Some d) \<Rightarrow>
                    if length ys = 4 \<and> length ms \<le> 2 \<and> length ds \<le> 2 \<and> valid_date y m d
                    then Inr \<lparr>year = y, month = m, day = d, hour = 0, minute = 0, second = 0,
                              microsecond = 0, tzinfo = None\<rparr>
                    else Inl ValueError
                | _ \<Rightarrow> Inl ValueError)
           | _ \<Rightarrow> Inl ValueError)"

text \<open>A time-zone database with two keys.\<close>

definition zone_table :: "string \<Rightarrow> error + (int \<Rightarrow> int)" where
  "zone_table key =
     (if key = ''UTC'' then Inr (\<lambda>t. 0)
      else if key = ''Asia/Tokyo'' then Inr (\<lambda>t. 32400)
      else Inl ZoneInfoNotFoundError)"

text \<open>A host whose local time is eight hours east of UTC, at a given wall-clock time.\<close>

definition sample_runtime :: "datetime \<Rightarrow> runtime" where
  "sample_runtime now =
     \<lparr>clock = now,
      mktime = (\<lambda>dt. epoch_seconds dt - 28800),
      utcoffset_at = (\<lambda>t. 28800),
      ZoneInfo = Some zone_table,
      fromisoformat = iso_fragment,
      strptime = ymd_fragment,
      strftime = c_strftime\<rparr>"

definition naive :: "nat \<Rightarrow> nat \<Rightarrow> nat \<Rightarrow> nat \<Rightarrow> nat \<Rightarrow> nat \<Rightarrow> nat \<Rightarrow> datetime" where
  "naive y m d h mi s us =
     \<lparr>year = y, month = m, day = d, hour = h, minute = mi, second = s, microsecond = us,
      tzinfo = None\<rparr>"

subsection \<open>Notions the claims are stated with\<close>

text \<open>
  The place of a naive datetime on the time line: microseconds since the start of
  ordinal day 0.
\<close>

definition instant_us :: "datetime \<Rightarrow> int" where
  "instant_us dt =
     (int (toordinal dt) * 86400 + int (hour dt * 3600 + minute dt * 60 + second dt)) * 1000000
       + int (microsecond dt)"

text \<open>
  The reading of a format string that the spec describes: a single pass that scans
  the string once and at each position takes the longest token that starts there,
  else copies the character. It is what "no replacement text is mistaken for a token"
  means, and \<open>token_subst\<close> (the code) is compared with it. The table lists the
  tokens of the spec's table, longer tokens before their prefixes.
\<close>

definition token_table :: "datetime \<Rightarrow> (string \<times> string) list" where
  "token_table dt =
     [(''YYYY'', ''%Y''),
      (''dddd'', WEEKDAYS ! weekday dt),
      (''SSS'', zfill 3 (str_nat (microsecond dt div 1000))),
      (''ddd'', WEEKDAYS_SHORT ! weekday dt),
      (''YY'', ''%y''),
      (''MM'', ''%m''),
      (''DD'', ''%d''),
      (''HH'', ''%H''),
      (''mm'', ''%M''),
      (''ss'', ''%S''),
      (''A'', if hour dt < 12 then ''AM'' else ''PM''),
      (''a'', if hour dt < 12 then ''am'' else ''pm'')]"

fun match_token :: "(string \<times> string) list \<Rightarrow> string \<Rightarrow> (string \<times> string) option" where
  "match_token [] s = None"
| "match_token ((tok, rep) # table) s =
     (if prefix tok s then Some (tok, rep) else match_token table s)"

fun single_pass :: "(string \<times> string) list \<Rightarrow> string \<Rightarrow> string" where
  "single_pass table [] = []"
| "single_pass table (c # cs) =
     (case match_token table (c # cs) of
        Some (tok, rep) \<Rightarrow> rep @ single_pass table (drop (length tok - 1) cs)
      | None \<Rightarrow> c # single_pass table cs)"

text \<open>The processes whose \<open>info\<close> could be read, in enumeration order.\<close>

definition visible :: "(error + proc_info) list \<Rightarrow> proc_info list" where
  "visible procs = List.map_filter (\<lambda>p. case p of Inr i \<Rightarrow> Some i | Inl e \<Rightarrow> None) procs"


text \<open>A \<open>timedelta\<close> whose fields are in the ranges Python keeps them in.\<close>

definition normalised :: "timedelta \<Rightarrow> bool" where
  "normalised td =
     (0 \<le> seconds td \<and> seconds td < 86400 \<and> 0 \<le> microseconds td \<and> microseconds td < 1000000)"

text \<open>
  The description of a signed distance of \<open>delta\<close> microseconds to a target whose
  rendered timestamp is \<open>stamp\<close>, in the words of the spec: the direction word, the
  timestamp, then whole days, whole hours (0 to 23) and whole minutes (0 to 59), a
  component that is zero being left out and the minutes being given only when the day
  count is zero.
\<close>

definition describe_delta :: "int \<Rightarrow> string \<Rightarrow> string" where
  "describe_delta delta stamp =
     (let whole_days = \<bar>delta\<bar> div 86400000000;
          whole_hours = \<bar>delta\<bar> div 3600000000 mod 24;
          whole_minutes = \<bar>delta\<bar> div 60000000 mod 60
      in (if 0 < delta then word_future else word_past) @ '' '' @ stamp
         @ (if whole_days \<noteq> 0
            then '' '' @ word_remaining @ '' '' @ str_int whole_days @ '' '' @ word_days else [])
         @ (if whole_hours \<noteq> 0 then '' '' @ str_int whole_hours @ '' '' @ word_hours else [])
         @ (if whole_days = 0 \<and> whole_minutes \<noteq> 0
            then '' '' @ str_int whole_minutes @ '' '' @ word_minutes else []))"

text \<open>
  The hundredths in \<open>a / d\<close>, rounded half to even, computed on integers: what
  \<open>round_half_even\<close> gives for the quotient times 100 (lemma \<open>round_half_even_ratio\<close>).
\<close>

definition hundredths :: "nat \<Rightarrow> nat \<Rightarrow> nat" where
  "hundredths a d =
     (let q = (100 * a) div d; r = (100 * a) mod d
      in if 2 * r < d then q else if d < 2 * r then q + 1 else if even q then q else q + 1)"

subsection \<open>Concrete inputs\<close>

definition sample_usage :: "string \<Rightarrow> error + sdiskusage" where
  "sample_usage mnt =
     (if mnt = ''/'' then Inr \<lparr>du_total = 2147483648, du_used = 1207959552, du_free = 939524096,
                              du_percent = ''56.2''\<rparr>
      else if mnt = ''/data'' then Inr \<lparr>du_total = 104857600, du_used = 0, du_free = 104857600,
                                       du_percent = ''0.0''\<rparr>
      else Inl OSError)"

definition sample_procs :: "(error + proc_info) list" where
  "sample_procs =
     [Inr \<lparr>pid = 1, name = Val ''init'', cpu_percent = Val 0, memory_percent = Val (3 / 2)\<rparr>,
      Inr \<lparr>pid = 2, name = Null, cpu_percent = Null, memory_percent = Null\<rparr>,
      Inl OSError,
      Inr \<lparr>pid = 3, name = Val ''db'', cpu_percent = Val 12, memory_percent = Val 3\<rparr>,
      Inr \<lparr>pid = 4, name = Val ''sh'', cpu_percent = Val 0, memory_percent = Val (3 / 2)\<rparr>,
      Inr \<lparr>pid = 5, name = Val ''idle'', cpu_percent = Val 0, memory_percent = Missing\<rparr>]"

definition sample_host :: host where
  "sample_host =
     \<lparr>sys_info = [(''platform'', ''Linux'')],
      cpu_info = [(''cores'', ''4'')],
      virtual_memory = \<lparr>vm_total = 17179869184, vm_used = 1073741824, vm_available = 1073741823,
                         vm_percent = ''6.2''\<rparr>,
      disk_partitions = [\<lparr>device = ''/dev/sda1'', mountpoint = ''/''\<rparr>,
                         \<lparr>device = ''/dev/cdrom'', mountpoint = ''/media/cd''\<rparr>,
                         \<lparr>device = ''/dev/sdb1'', mountpoint = ''/data''\<rparr>],
      disk_usage = sample_usage,
      net_if_addrs = [(''lo'', [\<lparr>family = 2, address = ''127.0.0.1'', netmask = ''255.0.0.0''\<rparr>,
                                \<lparr>family = 10, address = ''::1'', netmask = ''ffff::''\<rparr>])],
      process_iter = sample_procs\<rparr>"

definition sample_now :: datetime where
  "sample_now = naive 2024 3 15 12 34 56 789000"

text \<open>Noon on the last day of 2098, twelve hours before 2099-01-01.\<close>

definition eve_noon :: datetime where
  "eve_noon = naive 2098 12 31 12 0 0 0"

definition sample_args :: args where
  "sample_args =
     \<lparr>timezone = None, format = default_format, diff = None, timestamp = None, unix = False\<rparr>"

section \<open>Evaluation\<close>

lemmas cal_eval = ymd2ord_def days_before_year_def days_before_month_def days_in_month_def
  DAYS_BEFORE_MONTH_def DAYS_IN_MONTH_def is_leap_def toordinal_def weekday_def ord2ymd_def
  epoch_seconds_def from_epoch_def instant_us_def

lemmas str_eval = str_nat.simps str_int_def zfill_def digit_char_def is_digit_def digit_val_def
  digits_nat_def is_space_def strip_def py_int_def

lemmas td_eval = new_timedelta_def td_neg_def td_abs_def total_microseconds_def datetime_sub_def

lemmas lib_eval = directive_def valid_date_def iso_date_def iso_time_def iso_offset_def
  iso_fragment_def ymd_fragment_def zone_table_def sample_runtime_def naive_def sample_now_def
  sample_args_def eve_noon_def

lemmas word_eval = word_future_def word_past_def word_remaining_def word_days_def word_hours_def
  word_minutes_def invalid_date_format_def invalid_timestamp_def label_unix_def
  label_system_time_def label_utc_time_def label_invalid_zone_def common_zones_def
  zoneinfo_warning_def default_format_def WEEKDAYS_def WEEKDAYS_SHORT_def

lemmas time_eval = token_subst_def format_time_def parse_target_def time_diff_def
  timestamp_body_def timestamp_to_date_def time_main_def datetime_now_def astimezone_def
  timezone_utc_def fromtimestamp_def timestamp_int_def token_table_def describe_delta_def

lemmas sys_eval = hundredths_def disk_record_def
  get_disk_info_def get_mem_info_def get_network_info_def get_process_info_def get_sys_info_def
  get_cpu_info_def mem_key_def list_sort_def visible_def sample_usage_def sample_procs_def
  sample_host_def List.map_filter_simps

section \<open>sysinfo.py: the claims\<close>

subsection \<open>format_bytes\<close>




lemma format_bytes_cases:
  "format_bytes n =
     (if 1024 ^ 3 \<le> n then format_2f (of_nat n / 1024 ^ 3) @ '' GB''
      else format_2f (of_nat n / 1024 ^ 2) @ '' MB'')"
proof -
  have "(1 \<le> (of_nat n :: rat) / 1024 ^ 3) = (1024 ^ 3 \<le> n)"
  proof -
    have "(1 \<le> (of_nat n :: rat) / 1024 ^ 3) = ((1024 ^ 3 :: rat) \<le> of_nat n)"
      by (simp add: le_divide_eq)
    also have "\<dots> = ((of_nat (1024 ^ 3) :: rat) \<le> of_nat n)" by simp
    also have "\<dots> = (1024 ^ 3 \<le> n)" by (rule of_nat_le_iff)
    finally show ?thesis .
  qed
  then show ?thesis by (simp add: format_bytes_def Let_def)
qed

lemma round_half_even_ratio:
  assumes "0 < d"
  shows "round_half_even (of_nat a / of_nat d * 100) = int (hundredths a d)"
proof -
  define x where "x = 100 * a"
  define D :: rat where "D = of_nat d"
  define Rm :: rat where "Rm = of_nat (x mod d)"
  have Dpos: "0 < D" using assms by (simp add: D_def)
  have q: "(of_nat a :: rat) / of_nat d * 100 = of_nat x / of_nat d" by (simp add: x_def)
  have fl: "\<lfloor>(of_nat x :: rat) / of_nat d\<rfloor> = int (x div d)" by (rule floor_divide_of_nat_eq)
  have "(of_nat x :: rat) = of_nat (x div d * d + x mod d)" by simp
  then have "(of_nat x :: rat) = of_nat (x div d) * D + Rm"
    by (simp only: of_nat_add of_nat_mult D_def Rm_def)
  then have fr: "(of_nat x :: rat) / D - of_nat (x div d) = Rm / D"
    using Dpos by (simp add: field_simps)
  have lt: "(Rm / D < 1 / 2) = (2 * (x mod d) < d)"
  proof -
    have "(Rm / D < 1 / 2) = (2 * Rm < D)" using Dpos by (simp add: field_simps)
    also have "\<dots> = ((of_nat (2 * (x mod d)) :: rat) < of_nat d)" by (simp add: Rm_def D_def)
    also have "\<dots> = (2 * (x mod d) < d)" by (rule of_nat_less_iff)
    finally show ?thesis .
  qed
  have gt: "(1 / 2 < Rm / D) = (d < 2 * (x mod d))"
  proof -
    have "(1 / 2 < Rm / D) = (D < 2 * Rm)" using Dpos by (simp add: field_simps)
    also have "\<dots> = ((of_nat d :: rat) < of_nat (2 * (x mod d)))" by (simp add: Rm_def D_def)
    also have "\<dots> = (d < 2 * (x mod d))" by (rule of_nat_less_iff)
    finally show ?thesis .
  qed
  have "round_half_even (of_nat x / of_nat d) =
      (if Rm / D < 1 / 2 then int (x div d)
       else if 1 / 2 < Rm / D then int (x div d) + 1
       else if even (int (x div d)) then int (x div d) else int (x div d) + 1)"
    unfolding round_half_even_def Let_def fl using fr by (simp add: D_def)
  then show ?thesis unfolding q lt gt by (simp add: hundredths_def Let_def x_def)
qed

lemma format_2f_ratio:
  "0 < d \<Longrightarrow> format_2f (of_nat a / of_nat d) =
     (let h = hundredths a d
      in str_nat (h div 100) @ ''.'' @ [digit_char (h mod 100 div 10), digit_char (h mod 10)])"
  unfolding format_2f_def by (simp only: round_half_even_ratio Let_def nat_int)

lemma format_bytes_code:
  "format_bytes n =
     (if 1073741824 \<le> n
      then (let h = hundredths n 1073741824
            in str_nat (h div 100) @ ''.'' @ [digit_char (h mod 100 div 10), digit_char (h mod 10)]) @ '' GB''
      else (let h = hundredths n 1048576
            in str_nat (h div 100) @ ''.'' @ [digit_char (h mod 100 div 10), digit_char (h mod 10)]) @ '' MB'')"
proof -
  have a: "(1024 ^ 3 :: rat) = of_nat 1073741824" "(1024 ^ 2 :: rat) = of_nat 1048576" by simp_all
  have b: "(1024 ^ 3 :: nat) = 1073741824" by simp
  show ?thesis unfolding format_bytes_cases a b by (simp add: format_2f_ratio del: of_nat_numeral)
qed


text \<open>On either side of one GiB, and a tie (1.125 GiB rounds to the even hundredth).\<close>

lemma format_bytes_examples:
  "format_bytes 1073741824 = ''1.00 GB''"
  "format_bytes 1073741823 = ''1024.00 MB''"
  "format_bytes 1207959552 = ''1.12 GB''"
  "format_bytes 0 = ''0.00 MB''"
  by (simp_all add: format_bytes_code sys_eval str_eval Let_def)

subsection \<open>get_disk_info\<close>

text \<open>
  C9. Whatever partitions are enumerated and whichever usage queries raise,
  \<open>get_disk_info\<close> returns exactly one record for each partition whose usage query
  succeeds, built from that partition and its usage, in enumeration order; the
  partitions whose query raises are left out, and nothing is raised.
\<close>

theorem get_disk_info_skips_failed:
  "get_disk_info h =
     map (\<lambda>p. disk_record p (projr (disk_usage h (mountpoint p))))
       (filter (\<lambda>p. \<not> isl (disk_usage h (mountpoint p))) (disk_partitions h))"
proof -
  have loop: "disk_loop du parts disks =
      disks @ map (\<lambda>p. disk_record p (projr (du (mountpoint p))))
                (filter (\<lambda>p. \<not> isl (du (mountpoint p))) parts)" for du parts disks
  proof (induction parts arbitrary: disks)
    case Nil
    show ?case by simp
  next
    case (Cons part rest)
    show ?case
    proof (cases "du (mountpoint part)")
      case (Inl e)
      then show ?thesis by (simp add: Cons.IH)
    next
      case (Inr usage)
      then show ?thesis by (simp add: Cons.IH)
    qed
  qed
  show ?thesis unfolding get_disk_info_def loop by simp
qed

theorem get_disk_info_skips_failed_witness:
  "get_disk_info sample_host =
     [[(''device'', ''/dev/sda1''), (''mountpoint'', ''/''), (''total'', ''2.00 GB''),
       (''used'', ''1.12 GB''), (''free'', ''896.00 MB''), (''usage'', ''56.2%'')],
      [(''device'', ''/dev/sdb1''), (''mountpoint'', ''/data''), (''total'', ''100.00 MB''),
       (''used'', ''0.00 MB''), (''free'', ''100.00 MB''), (''usage'', ''0.0%'')]]"
  using get_disk_info_skips_failed[of sample_host]
  by (simp add: format_bytes_code sys_eval str_eval Let_def)

subsection \<open>get_process_info\<close>

lemma proc_loop_eq: "proc_loop procs acc = acc @ visible procs"
  by (induction procs arbitrary: acc) (simp_all add: visible_def List.map_filter_simps split: sum.splits)

lemma list_sort_reverse_sorted:
  "sorted_wrt (\<lambda>a b. key b \<le> key a) (list_sort key True xs)"
proof -
  have "sorted (map key (sort_key key (rev xs)))" by (rule sorted_sort_key)
  then have "sorted_wrt (\<lambda>a b. key a \<le> key b) (sort_key key (rev xs))"
    by (simp add: sorted_wrt_map)
  then show ?thesis by (simp add: list_sort_def sorted_wrt_rev)
qed

lemma list_sort_reverse_stable:
  "filter (\<lambda>x. key x = k) (list_sort key True xs) = filter (\<lambda>x. key x = k) xs"
proof -
  have "filter (\<lambda>x. key x = k) (sort_key key (rev xs)) = filter (\<lambda>x. key x = k) (rev xs)"
    by (rule sort_key_stable)
  then have "rev (filter (\<lambda>x. key x = k) (sort_key key (rev xs))) = filter (\<lambda>x. key x = k) xs"
    by (simp add: rev_filter)
  then show ?thesis by (simp add: list_sort_def rev_filter)
qed

lemma list_sort_mset: "mset (list_sort key r xs) = mset xs"
  by (simp add: list_sort_def)

lemma sorted_wrt_take_prefix: "sorted_wrt P xs \<Longrightarrow> sorted_wrt P (take n xs)"
  by (induction xs arbitrary: n) (auto simp: take_Cons' dest: in_set_takeD)

text \<open>
  C6. For every enumeration of processes, \<open>get_process_info\<close> with its default
  \<open>top = 10\<close> returns the first ten entries of a ranking of the visible processes
  (those whose \<open>info\<close> could be read): the ranking holds exactly the visible
  processes, is in non-increasing order of the memory key, and keeps processes with
  equal keys in their enumeration order. So the result has at most ten entries in
  non-increasing order. The memory key of a process whose memory percentage is
  missing or \<open>None\<close> is zero, and otherwise it is the percentage.
\<close>

theorem get_process_info_top10:
  "\<exists>ranked.
      get_process_info h 10 = take 10 ranked
    \<and> mset ranked = mset (visible (process_iter h))
    \<and> sorted_wrt (\<lambda>a b. mem_key b \<le> mem_key a) ranked
    \<and> (\<forall>k. filter (\<lambda>p. mem_key p = k) ranked
            = filter (\<lambda>p. mem_key p = k) (visible (process_iter h)))
    \<and> length (get_process_info h 10) \<le> 10
    \<and> sorted_wrt (\<lambda>a b. mem_key b \<le> mem_key a) (get_process_info h 10)
    \<and> mem_key (p\<lparr>memory_percent := Missing\<rparr>) = 0
    \<and> mem_key (p\<lparr>memory_percent := Null\<rparr>) = 0
    \<and> mem_key (p\<lparr>memory_percent := Val v\<rparr>) = v"
proof -
  define ranked where "ranked = list_sort mem_key True (visible (process_iter h))"
  have r: "get_process_info h 10 = take 10 ranked"
    by (simp add: get_process_info_def proc_loop_eq ranked_def)
  have s: "sorted_wrt (\<lambda>a b. mem_key b \<le> mem_key a) ranked"
    unfolding ranked_def by (rule list_sort_reverse_sorted)
  have "mset ranked = mset (visible (process_iter h))"
    unfolding ranked_def by (rule list_sort_mset)
  moreover have "\<forall>k. filter (\<lambda>p. mem_key p = k) ranked
       = filter (\<lambda>p. mem_key p = k) (visible (process_iter h))"
    unfolding ranked_def by (simp add: list_sort_reverse_stable)
  moreover have "length (get_process_info h 10) \<le> 10" by (simp add: r)
  moreover have "sorted_wrt (\<lambda>a b. mem_key b \<le> mem_key a) (get_process_info h 10)"
    unfolding r using s by (rule sorted_wrt_take_prefix)
  moreover have "mem_key (p\<lparr>memory_percent := Missing\<rparr>) = 0"
    "mem_key (p\<lparr>memory_percent := Null\<rparr>) = 0" "mem_key (p\<lparr>memory_percent := Val v\<rparr>) = v"
    by (simp_all add: mem_key_def)
  ultimately show ?thesis using r s by blast
qed

text \<open>
  On the sample host: process 3 leads, the two processes at 1.5 keep their order (1
  before 4), and the two with no percentage come last in their order (2 before 5).
\<close>

lemma get_process_info_example: "map pid (get_process_info sample_host 10) = [3, 1, 4, 2, 5]"
  by (simp add: sample_host_def sample_procs_def get_process_info_def list_sort_def mem_key_def)

subsection \<open>main\<close>

lemma labels_distinct:
  "distinct [label_sys, label_cpu, label_mem, label_disk, label_net, label_proc]"
  by (simp add: label_sys_def label_cpu_def label_mem_def label_disk_def label_net_def
      label_proc_def)

text \<open>
  C7. For the selector \<open>all\<close> the report has the sections system, CPU, memory, disk
  and network, in this order, and no process section; and for every selector the
  report has a process section exactly when the selector is \<open>process\<close>.
\<close>

theorem all_excludes_process:
  "map fst (main_result h T_all) = [label_sys, label_cpu, label_mem, label_disk, label_net]
   \<and> label_proc \<notin> set (map fst (main_result h T_all))
   \<and> (\<forall>t. (label_proc \<in> set (map fst (main_result h t))) = (t = T_process))"
proof -
  have a: "map fst (main_result h T_all) = [label_sys, label_cpu, label_mem, label_disk, label_net]"
    using labels_distinct by (simp add: main_result_def)
  have b: "(label_proc \<in> set (map fst (main_result h t))) = (t = T_process)" for t
    using labels_distinct by (cases t) (auto simp: main_result_def)
  have c: "label_proc \<notin> set (map fst (main_result h T_all))"
    using b[of T_all] by simp
  show ?thesis by (intro conjI allI) (rule a, rule c, rule b)
qed

section \<open>time.py: the claims\<close>

subsection \<open>timedelta arithmetic\<close>

lemma new_timedelta_total:
  "total_microseconds (new_timedelta d s us) = (d * 86400 + s) * 1000000 + us"
proof -
  define s' where "s' = s + us div 1000000"
  have 1: "us = us div 1000000 * 1000000 + us mod 1000000" by simp
  have 2: "s' = s' div 86400 * 86400 + s' mod 86400" by simp
  have "total_microseconds (new_timedelta d s us)
        = ((d + s' div 86400) * 86400 + s' mod 86400) * 1000000 + us mod 1000000"
    by (simp add: total_microseconds_def new_timedelta_def Let_def s'_def)
  also have "\<dots> = (d * 86400 + (s' div 86400 * 86400 + s' mod 86400)) * 1000000 + us mod 1000000"
    by (simp only: algebra_simps)
  also have "\<dots> = (d * 86400 + s') * 1000000 + us mod 1000000"
    using 2 by simp
  also have "\<dots> = (d * 86400 + s) * 1000000 + (us div 1000000 * 1000000 + us mod 1000000)"
    by (simp only: s'_def algebra_simps)
  also have "\<dots> = (d * 86400 + s) * 1000000 + us" using 1 by simp
  finally show ?thesis .
qed

lemma new_timedelta_normalised: "normalised (new_timedelta d s us)"
  by (simp add: normalised_def new_timedelta_def Let_def)

lemma normalised_fields:
  assumes "normalised td"
  shows "days td = total_microseconds td div 86400000000"
    and "seconds td = total_microseconds td div 1000000 mod 86400"
    and "microseconds td = total_microseconds td mod 1000000"
proof -
  define d where "d = days td"
  define s where "s = seconds td"
  define u where "u = microseconds td"
  define k where "k = d * 86400 + s"
  have b: "0 \<le> s" "s < 86400" "0 \<le> u" "u < 1000000"
    using assms by (simp_all add: normalised_def s_def u_def)
  have t: "total_microseconds td = k * 1000000 + u"
    by (simp add: total_microseconds_def d_def s_def u_def k_def)
  have "(k * 1000000 + u) mod 1000000 = u mod 1000000" by (rule mod_mult_self3)
  then have m: "total_microseconds td mod 1000000 = u" using b t by simp
  have "(k * 1000000 + u) div 1000000 = k + u div 1000000" by (rule div_mult_self3) simp
  then have q: "total_microseconds td div 1000000 = k" using b t by simp
  have "(d * 86400 + s) mod 86400 = s mod 86400" by (rule mod_mult_self3)
  then have sm: "k mod 86400 = s" using b by (simp add: k_def)
  have "(d * 86400 + s) div 86400 = d + s div 86400" by (rule div_mult_self3) simp
  then have sd: "k div 86400 = d" using b by (simp add: k_def)
  show "microseconds td = total_microseconds td mod 1000000" using m by (simp add: u_def)
  show "seconds td = total_microseconds td div 1000000 mod 86400"
    using sm q by (simp add: s_def)
  have "total_microseconds td div 86400000000 = total_microseconds td div 1000000 div 86400"
    by (simp add: zdiv_zmult2_eq[symmetric])
  then show "days td = total_microseconds td div 86400000000" using q sd by (simp add: d_def)
qed

lemma normalised_sign:
  "normalised td \<Longrightarrow> (days td < 0) = (total_microseconds td < 0)"
  unfolding normalised_def total_microseconds_def by auto

lemma td_neg_total: "total_microseconds (td_neg td) = - total_microseconds td"
  unfolding td_neg_def new_timedelta_total by (simp add: total_microseconds_def)

lemma td_abs_total:
  "normalised td \<Longrightarrow> total_microseconds (td_abs td) = \<bar>total_microseconds td\<bar>"
  using normalised_sign[of td] by (simp add: td_abs_def td_neg_total)

lemma td_abs_normalised: "normalised td \<Longrightarrow> normalised (td_abs td)"
  by (simp add: td_abs_def td_neg_def new_timedelta_normalised)

lemma hours_of_seconds: "(x mod 86400) div 3600 = x div 3600 mod (24::int)"
proof -
  have "x mod (3600 * 24) = 3600 * (x div 3600 mod 24) + x mod 3600"
    by (rule zmod_zmult2_eq) simp
  then have "(x mod 86400) div 3600 = (3600 * (x div 3600 mod 24) + x mod 3600) div 3600"
    by simp
  also have "\<dots> = x div 3600 mod 24 + x mod 3600 div 3600"
    by (rule div_mult_self4) simp
  finally show ?thesis by simp
qed

lemma minutes_of_seconds: "(x mod 86400) mod 3600 div 60 = x div 60 mod (60::int)"
proof -
  have a: "(x mod 86400) mod 3600 = x mod 3600" by (rule mod_mod_cancel) simp
  have "x mod (60 * 60) = 60 * (x div 60 mod 60) + x mod 60" by (rule zmod_zmult2_eq) simp
  then have "x mod 3600 div 60 = (60 * (x div 60 mod 60) + x mod 60) div 60" by simp
  also have "\<dots> = x div 60 mod 60 + x mod 60 div 60" by (rule div_mult_self4) simp
  finally show ?thesis using a by simp
qed

lemma div_by_parts:
  "(x::int) div 1000000 div 3600 = x div 3600000000"
  "(x::int) div 1000000 div 60 = x div 60000000"
  by (simp_all add: zdiv_zmult2_eq[symmetric])

subsection \<open>Subtracting datetimes\<close>

lemma datetime_sub_naive:
  assumes "tzinfo a = None" "tzinfo b = None"
  shows "\<exists>td. datetime_sub a b = Inr td \<and> normalised td
            \<and> total_microseconds td = instant_us a - instant_us b"
proof -
  define td where "td = new_timedelta (int (toordinal a) - int (toordinal b))
      (int (second a + minute a * 60 + hour a * 3600) - int (second b + minute b * 60 + hour b * 3600))
      (int (microsecond a) - int (microsecond b))"
  have "datetime_sub a b = Inr td" using assms by (simp add: datetime_sub_def Let_def td_def)
  moreover have "normalised td" unfolding td_def by (rule new_timedelta_normalised)
  moreover have "total_microseconds td = instant_us a - instant_us b"
    unfolding td_def new_timedelta_total instant_us_def by (simp add: algebra_simps)
  ultimately show ?thesis by blast
qed

lemma datetime_sub_mixed:
  "tzinfo a \<noteq> None \<Longrightarrow> tzinfo b = None \<Longrightarrow> datetime_sub a b = Inl TypeError"
  by (auto simp: datetime_sub_def Let_def)

lemma datetime_now_naive: "tzinfo (datetime_now R) = None"
  by (simp add: datetime_now_def)

subsection \<open>time_diff\<close>

lemma time_diff_unparsed:
  "parse_target R s = None \<Longrightarrow> time_diff R s = Inr invalid_date_format"
  by (simp add: time_diff_def)

lemma time_diff_aware:
  "parse_target R s = Some t \<Longrightarrow> tzinfo t \<noteq> None \<Longrightarrow> time_diff R s = Inl TypeError"
  by (simp add: time_diff_def Let_def datetime_sub_mixed datetime_now_naive)

lemma abs_fields:
  assumes norm: "normalised td" and tot: "total_microseconds td = delta"
  shows "days (td_abs td) = \<bar>delta\<bar> div 86400000000"
    and "seconds (td_abs td) div 3600 = \<bar>delta\<bar> div 3600000000 mod 24"
    and "seconds (td_abs td) mod 3600 div 60 = \<bar>delta\<bar> div 60000000 mod 60"
proof -
  define X where "X = \<bar>delta\<bar> div 1000000"
  have an: "normalised (td_abs td)" using norm by (rule td_abs_normalised)
  have at: "total_microseconds (td_abs td) = \<bar>delta\<bar>" using norm tot by (simp add: td_abs_total)
  show "days (td_abs td) = \<bar>delta\<bar> div 86400000000"
    using normalised_fields(1)[OF an] at by simp
  have sec: "seconds (td_abs td) = X mod 86400"
    using normalised_fields(2)[OF an] at by (simp add: X_def)
  have "X mod 86400 div 3600 = X div 3600 mod 24" by (rule hours_of_seconds)
  also have "X div 3600 = \<bar>delta\<bar> div 3600000000" unfolding X_def by (rule div_by_parts)
  finally show "seconds (td_abs td) div 3600 = \<bar>delta\<bar> div 3600000000 mod 24"
    by (simp only: sec)
  have "X mod 86400 mod 3600 div 60 = X div 60 mod 60" by (rule minutes_of_seconds)
  also have "X div 60 = \<bar>delta\<bar> div 60000000" unfolding X_def by (rule div_by_parts)
  finally show "seconds (td_abs td) mod 3600 div 60 = \<bar>delta\<bar> div 60000000 mod 60"
    by (simp only: sec)
qed

lemma time_diff_sub:
  assumes p: "parse_target R s = Some t" and sub: "datetime_sub t (datetime_now R) = Inr td"
  shows "time_diff R s =
     Inr ((if 0 < total_microseconds td then word_future else word_past) @ '' ''
          @ strftime R t ''%Y-%m-%d %H:%M:%S''
          @ (if 0 < days (td_abs td)
             then '' '' @ word_remaining @ '' '' @ str_int (days (td_abs td)) @ '' '' @ word_days else [])
          @ (if 0 < seconds (td_abs td) div 3600
             then '' '' @ str_int (seconds (td_abs td) div 3600) @ '' '' @ word_hours else [])
          @ (if 0 < seconds (td_abs td) mod 3600 div 60 \<and> days (td_abs td) = 0
             then '' '' @ str_int (seconds (td_abs td) mod 3600 div 60) @ '' '' @ word_minutes else []))"
  unfolding time_diff_def p option.case Let_def sub sum.case by simp


subsection \<open>time_diff: what is printed\<close>

text \<open>
  C4, as the code has it. For every target that parses and carries no UTC offset,
  \<open>time_diff\<close> returns the description of the signed distance from the current
  instant to the target: the direction word (the future word exactly when the target
  is strictly later), the target rendered with \<open>%Y-%m-%d %H:%M:%S\<close>, then the whole
  days when not zero, the whole hours (0 to 23) when not zero, and the whole minutes
  (0 to 59) when not zero and the day count is zero. So for a target after the current
  instant the word is the future one, a day count is printed exactly when the target
  is at least 24 hours away, and no minutes are printed when the day count is above
  zero. The days, hours and minutes that the code reads off the fields of Python's
  normalised \<open>timedelta\<close> are the quotients of the distance in microseconds.
\<close>

theorem time_diff_describes_delta:
  assumes p: "parse_target R s = Some t" and n: "tzinfo t = None"
  shows "time_diff R s =
     Inr (describe_delta (instant_us t - instant_us (datetime_now R))
            (strftime R t ''%Y-%m-%d %H:%M:%S''))"
proof -
  define delta where "delta = instant_us t - instant_us (datetime_now R)"
  define D where "D = \<bar>delta\<bar> div 86400000000"
  define H where "H = \<bar>delta\<bar> div 3600000000 mod 24"
  define M where "M = \<bar>delta\<bar> div 60000000 mod 60"
  from datetime_sub_naive[OF n datetime_now_naive]
  obtain td where sub: "datetime_sub t (datetime_now R) = Inr td"
    and norm: "normalised td" and tot: "total_microseconds td = delta"
    unfolding delta_def by blast
  have f: "days (td_abs td) = D" "seconds (td_abs td) div 3600 = H"
    "seconds (td_abs td) mod 3600 div 60 = M"
    unfolding D_def H_def M_def by (rule abs_fields[OF norm tot])+
  have "0 \<le> D" unfolding D_def by (simp add: pos_imp_zdiv_nonneg_iff)
  then have dpos: "(0 < D) = (D \<noteq> 0)" by auto
  have "0 \<le> H" unfolding H_def by simp
  then have hpos: "(0 < H) = (H \<noteq> 0)" by auto
  have "0 \<le> M" unfolding M_def by simp
  then have mpos: "(0 < M) = (M \<noteq> 0)" by auto
  have "describe_delta delta (strftime R t ''%Y-%m-%d %H:%M:%S'') =
      (if 0 < delta then word_future else word_past) @ '' '' @ strftime R t ''%Y-%m-%d %H:%M:%S''
         @ (if D \<noteq> 0 then '' '' @ word_remaining @ '' '' @ str_int D @ '' '' @ word_days else [])
         @ (if H \<noteq> 0 then '' '' @ str_int H @ '' '' @ word_hours else [])
         @ (if D = 0 \<and> M \<noteq> 0 then '' '' @ str_int M @ '' '' @ word_minutes else [])"
    unfolding describe_delta_def Let_def D_def H_def M_def ..
  moreover have "time_diff R s = Inr ((if 0 < delta then word_future else word_past) @ '' ''
          @ strftime R t ''%Y-%m-%d %H:%M:%S''
          @ (if D \<noteq> 0 then '' '' @ word_remaining @ '' '' @ str_int D @ '' '' @ word_days else [])
          @ (if H \<noteq> 0 then '' '' @ str_int H @ '' '' @ word_hours else [])
          @ (if M \<noteq> 0 \<and> D = 0 then '' '' @ str_int M @ '' '' @ word_minutes else []))"
    unfolding time_diff_sub[OF p sub] f tot dpos hpos mpos ..
  ultimately show ?thesis unfolding delta_def[symmetric] by (simp add: conj_commute)
qed

text \<open>
  C4, witness: from noon of 2098-12-31 the target 2098-12-29 10:30:00 lies 2 days,
  1 hour and 30 minutes back; the minutes are not printed.
\<close>

theorem time_diff_describes_delta_witness:
  "parse_target (sample_runtime eve_noon) ''2098-12-29 10:30:00'' = Some (naive 2098 12 29 10 30 0 0)
   \<and> tzinfo (naive 2098 12 29 10 30 0 0) = None
   \<and> time_diff (sample_runtime eve_noon) ''2098-12-29 10:30:00''
       = Inr (word_past @ '' 2098-12-29 10:30:00 '' @ word_remaining @ '' 2 '' @ word_days
              @ '' 1 '' @ word_hours)"
proof -
  have p: "parse_target (sample_runtime eve_noon) ''2098-12-29 10:30:00''
      = Some (naive 2098 12 29 10 30 0 0)"
    by (simp add: time_eval lib_eval cal_eval str_eval Let_def)
  have n: "tzinfo (naive 2098 12 29 10 30 0 0) = None" by (simp add: naive_def)
  have d: "instant_us (naive 2098 12 29 10 30 0 0) - instant_us (datetime_now (sample_runtime eve_noon))
      = - 178200000000"
    by (simp add: time_eval lib_eval cal_eval)
  have "time_diff (sample_runtime eve_noon) ''2098-12-29 10:30:00''
       = Inr (word_past @ '' 2098-12-29 10:30:00 '' @ word_remaining @ '' 2 '' @ word_days
              @ '' 1 '' @ word_hours)"
    unfolding time_diff_describes_delta[OF p n] d
    by (simp add: describe_delta_def lib_eval str_eval Let_def)
  with p n show ?thesis by simp
qed

text \<open>
  C4, counterexample to the claim as stated ("for any target date after the current
  instant ... the day count is nonzero"): at noon of 2098-12-31 the target 2099-01-01
  is after the current instant and the output has the future word and 12 hours, with
  no day count.
\<close>

theorem time_diff_less_than_a_day:
  "parse_target (sample_runtime eve_noon) ''2099-01-01'' = Some (naive 2099 1 1 0 0 0 0)
   \<and> instant_us (datetime_now (sample_runtime eve_noon)) < instant_us (naive 2099 1 1 0 0 0 0)
   \<and> time_diff (sample_runtime eve_noon) ''2099-01-01''
       = Inr (word_future @ '' 2099-01-01 00:00:00 12 '' @ word_hours)"
  by (simp add: time_eval lib_eval td_eval cal_eval str_eval Let_def)

subsection \<open>time_diff: the direction word\<close>

lemma past_not_future: "word_past @ xs \<noteq> word_future @ ys"
  by (simp add: word_past_def word_future_def)

text \<open>
  C10. For a target that parses and carries no UTC offset: when the target equals the
  current instant (a distance of zero) \<open>time_diff\<close> returns the past word followed
  by the rendered target, and the output starts with the future word exactly when the
  target is strictly later than the current instant.
\<close>

theorem time_diff_zero_is_past:
  assumes p: "parse_target R s = Some t" and n: "tzinfo t = None"
  shows "(instant_us t = instant_us (datetime_now R) \<longrightarrow>
            time_diff R s = Inr (word_past @ '' '' @ strftime R t ''%Y-%m-%d %H:%M:%S''))
       \<and> ((\<exists>rest. time_diff R s = Inr (word_future @ rest))
            = (instant_us (datetime_now R) < instant_us t))"
proof -
  define delta where "delta = instant_us t - instant_us (datetime_now R)"
  from datetime_sub_naive[OF n datetime_now_naive]
  obtain td where sub: "datetime_sub t (datetime_now R) = Inr td"
    and norm: "normalised td" and tot: "total_microseconds td = delta"
    unfolding delta_def by blast
  note out = time_diff_sub[OF p sub, unfolded tot]
  have zero: "time_diff R s = Inr (word_past @ '' '' @ strftime R t ''%Y-%m-%d %H:%M:%S'')"
    if z: "delta = 0"
  proof -
    have "days (td_abs td) = 0" "seconds (td_abs td) div 3600 = 0"
      "seconds (td_abs td) mod 3600 div 60 = 0"
      using abs_fields[OF norm tot] z by simp_all
    then show ?thesis unfolding out using z by simp
  qed
  obtain rest where shape:
    "time_diff R s = Inr ((if 0 < delta then word_future else word_past) @ rest)"
    unfolding out by simp
  have dir: "(\<exists>rest'. time_diff R s = Inr (word_future @ rest')) = (0 < delta)"
  proof (cases "0 < delta")
    case True
    then show ?thesis using shape by auto
  next
    case False
    then show ?thesis using shape past_not_future by auto
  qed
  have "(delta = 0) = (instant_us t = instant_us (datetime_now R))"
    "(0 < delta) = (instant_us (datetime_now R) < instant_us t)"
    unfolding delta_def by auto
  then show ?thesis using zero dir by simp
qed

text \<open>
  C10, witness: the target 2098-12-31 12:00:00 at that very instant.
\<close>

theorem time_diff_zero_is_past_witness:
  "parse_target (sample_runtime eve_noon) ''2098-12-31 12:00:00'' = Some eve_noon
   \<and> tzinfo eve_noon = None
   \<and> instant_us eve_noon = instant_us (datetime_now (sample_runtime eve_noon))
   \<and> time_diff (sample_runtime eve_noon) ''2098-12-31 12:00:00''
       = Inr (word_past @ '' 2098-12-31 12:00:00'')"
proof -
  have p: "parse_target (sample_runtime eve_noon) ''2098-12-31 12:00:00'' = Some eve_noon"
    by (simp add: time_eval lib_eval cal_eval str_eval Let_def)
  have n: "tzinfo eve_noon = None" by (simp add: eve_noon_def naive_def)
  have z: "instant_us eve_noon = instant_us (datetime_now (sample_runtime eve_noon))"
    by (simp add: time_eval lib_eval cal_eval)
  have s: "strftime (sample_runtime eve_noon) eve_noon ''%Y-%m-%d %H:%M:%S'' = ''2098-12-31 12:00:00''"
    by (simp add: lib_eval str_eval)
  from time_diff_zero_is_past[OF p n] z s
  have "time_diff (sample_runtime eve_noon) ''2098-12-31 12:00:00''
       = Inr (word_past @ '' 2098-12-31 12:00:00'')"
    by simp
  with p n z show ?thesis by simp
qed

subsection \<open>time_diff: a target with an offset\<close>

text \<open>
  C2. The claim says \<open>time_diff\<close> returns a string for every input and never
  raises. The code replaces \<open>Z\<close> by \<open>+00:00\<close> so that \<open>fromisoformat\<close> accepts
  it; the datetime parsed from a string with an offset is aware, \<open>datetime.now()\<close>
  is naive, and their subtraction, which stands outside the \<open>try\<close> blocks, raises
  \<open>TypeError\<close> (lemma \<open>time_diff_aware\<close>, for every runtime). Evaluated on two such
  inputs:
\<close>

theorem time_diff_offset_target_raises:
  "replace ''Z'' ''+00:00'' ''2099-01-01T00:00:00Z'' = ''2099-01-01T00:00:00+00:00''
   \<and> parse_target (sample_runtime sample_now) ''2099-01-01T00:00:00Z''
       = Some ((naive 2099 1 1 0 0 0 0)\<lparr>tzinfo := Some 0\<rparr>)
   \<and> time_diff (sample_runtime sample_now) ''2099-01-01T00:00:00Z'' = Inl TypeError
   \<and> time_diff (sample_runtime sample_now) ''2099-01-01T00:00:00+08:00'' = Inl TypeError"
  by (simp add: time_eval lib_eval td_eval cal_eval str_eval Let_def)

text \<open>
  Other inputs, from noon of 2098-12-31: one that neither parser accepts, one that only
  \<open>strptime\<close> accepts, one more than a day ahead (its 45 minutes are not printed), and
  one 25 minutes ahead.
\<close>

lemma time_diff_examples:
  "time_diff (sample_runtime eve_noon) ''bad-date'' = Inr invalid_date_format"
  "time_diff (sample_runtime eve_noon) ''2099-1-1''
     = Inr (word_future @ '' 2099-01-01 00:00:00 12 '' @ word_hours)"
  "time_diff (sample_runtime eve_noon) ''2099-01-03T15:45:10''
     = Inr (word_future @ '' 2099-01-03 15:45:10 '' @ word_remaining @ '' 3 '' @ word_days
            @ '' 3 '' @ word_hours)"
  "time_diff (sample_runtime eve_noon) ''2098-12-31 12:25:00''
     = Inr (word_future @ '' 2098-12-31 12:25:00 25 '' @ word_minutes)"
  by (simp_all add: time_eval lib_eval td_eval cal_eval str_eval Let_def)

subsection \<open>timestamp_to_date\<close>

text \<open>
  The pattern of \<open>timestamp_to_date\<close> and \<open>time_diff\<close> under the sample \<open>strftime\<close>,
  and the time of day of a datetime made from an instant: the hour, minute and second
  are in range and are the seconds into the day.
\<close>

lemma c_strftime_stamp:
  "c_strftime dt ''%Y-%m-%d %H:%M:%S'' =
     zfill 4 (str_nat (year dt)) @ ''-'' @ zfill 2 (str_nat (month dt)) @ ''-''
     @ zfill 2 (str_nat (day dt)) @ '' '' @ zfill 2 (str_nat (hour dt)) @ '':''
     @ zfill 2 (str_nat (minute dt)) @ '':'' @ zfill 2 (str_nat (second dt))"
  by (simp add: directive_def)

lemma from_epoch_time_of_day:
  "hour (from_epoch w us tz) < 24 \<and> minute (from_epoch w us tz) < 60
   \<and> second (from_epoch w us tz) < 60
   \<and> int (hour (from_epoch w us tz) * 3600 + minute (from_epoch w us tz) * 60
           + second (from_epoch w us tz)) = w mod 86400
   \<and> microsecond (from_epoch w us tz) = us \<and> tzinfo (from_epoch w us tz) = tz"
proof -
  define s where "s = nat (w mod 86400)"
  have b: "s < 86400" unfolding s_def by simp
  have i: "int s = w mod 86400" unfolding s_def by simp
  have f: "hour (from_epoch w us tz) = s div 3600"
    "minute (from_epoch w us tz) = s mod 3600 div 60"
    "second (from_epoch w us tz) = s mod 60"
    "microsecond (from_epoch w us tz) = us" "tzinfo (from_epoch w us tz) = tz"
    by (simp_all add: from_epoch_def Let_def s_def split: prod.splits)
  have "s div 3600 < 24" using b by simp
  moreover have "s mod 3600 div 60 < 60" by (simp add: less_mult_imp_div_less)
  moreover have "s mod 60 < 60" by simp
  moreover have "s div 3600 * 3600 + s mod 3600 div 60 * 60 + s mod 60 = s"
  proof -
    have "s mod 3600 div 60 * 60 + s mod 3600 mod 60 = s mod 3600" by simp
    moreover have "s mod 3600 mod 60 = s mod 60" by (simp add: mod_mod_cancel)
    ultimately have "s mod 3600 div 60 * 60 + s mod 60 = s mod 3600" by simp
    then show ?thesis by (metis add.assoc div_mult_mod_eq)
  qed
  ultimately show ?thesis unfolding f using i by simp
qed




text \<open>An integer whose instant lies beyond year 9999 gives the diagnostic too.\<close>

lemma timestamp_to_date_out_of_range:
  "timestamp_to_date (sample_runtime sample_now) ''999999999999'' = invalid_timestamp"
  by (simp add: time_eval lib_eval cal_eval str_eval Let_def)

subsection \<open>A time zone that does not resolve\<close>

lemma format_time_local: "format_time R dt fmt None = Inr (strftime R dt (token_subst dt fmt))"
  by (simp add: format_time_def)

lemma format_time_unresolved:
  "ZoneInfo R = Some zoneinfo \<Longrightarrow> zoneinfo key = Inl e \<Longrightarrow> key \<noteq> [] \<Longrightarrow>
   format_time R dt fmt (Some key) = Inl e"
  by (simp add: format_time_def)

lemma format_time_no_zoneinfo:
  "ZoneInfo R = None \<Longrightarrow> key \<noteq> [] \<Longrightarrow>
   format_time R dt fmt (Some key) =
     Inr (strftime R (astimezone R dt timezone_utc) (token_subst (astimezone R dt timezone_utc) fmt))"
  by (simp add: format_time_def)

lemma time_main_timezone:
  assumes "timezone a = Some key" and "key \<noteq> []"
    and "\<not> unix a" and "\<not> truthy (timestamp a)" and "\<not> truthy (diff a)"
  shows "time_main R a =
     (case ZoneInfo R of
        None \<Rightarrow>
          ([label_system_time @ strftime R (datetime_now R) (token_subst (datetime_now R) (format a)),
            zoneinfo_warning], None)
      | Some zoneinfo \<Rightarrow>
          (case format_time R (datetime_now R) (format a) (Some key) of
             Inr zone_text \<Rightarrow>
               ([label_system_time @ strftime R (datetime_now R) (token_subst (datetime_now R) (format a)),
                 key @ '': '' @ zone_text], None)
           | Inl e \<Rightarrow>
               ([label_system_time @ strftime R (datetime_now R) (token_subst (datetime_now R) (format a)),
                 label_invalid_zone @ key, common_zones], None)))"
  unfolding time_main_def Let_def format_time_local using assms
  by (simp split: option.splits sum.splits)


lemma sample_now_utc:
  "astimezone ((sample_runtime sample_now)\<lparr>ZoneInfo := None\<rparr>) sample_now timezone_utc
     = (naive 2024 3 15 4 34 56 789000)\<lparr>tzinfo := Some 0\<rparr>"
  by (simp add: astimezone_def timezone_utc_def lib_eval cal_eval Let_def)

text \<open>
  C3, counterexample to the claim as stated: where \<open>ZoneInfo\<close> is \<open>None\<close> (no
  zoneinfo support), \<open>format_time\<close> asked for the zone \<open>Mars/Phobos\<close> renders the
  instant in UTC without any error, and \<open>main\<close> prints the system time and a fixed
  warning that names neither the identifier nor any example.
\<close>

theorem timezone_fallback_without_zoneinfo:
  "format_time ((sample_runtime sample_now)\<lparr>ZoneInfo := None\<rparr>) sample_now default_format
       (Some ''Mars/Phobos'')
     = Inr ''2024-03-15 04:34:56''
   \<and> time_main ((sample_runtime sample_now)\<lparr>ZoneInfo := None\<rparr>)
         (sample_args\<lparr>timezone := Some ''Mars/Phobos''\<rparr>)
     = ([label_system_time @ ''2024-03-15 12:34:56'', zoneinfo_warning], None)"
proof -
  let ?R = "(sample_runtime sample_now)\<lparr>ZoneInfo := None\<rparr>"
  let ?a = "sample_args\<lparr>timezone := Some ''Mars/Phobos''\<rparr>"
  have n: "ZoneInfo ?R = None" by simp
  have now: "datetime_now ?R = sample_now"
    by (simp add: datetime_now_def sample_runtime_def sample_now_def naive_def)
  have sf: "strftime ?R = c_strftime" by (simp add: sample_runtime_def)
  have u: "c_strftime ((naive 2024 3 15 4 34 56 789000)\<lparr>tzinfo := Some 0\<rparr>)
      (token_subst ((naive 2024 3 15 4 34 56 789000)\<lparr>tzinfo := Some 0\<rparr>) default_format)
      = ''2024-03-15 04:34:56''"
    by (simp add: token_subst_def default_format_def lib_eval cal_eval str_eval Let_def)
  have l: "c_strftime sample_now (token_subst sample_now default_format) = ''2024-03-15 12:34:56''"
    by (simp add: token_subst_def default_format_def lib_eval cal_eval str_eval Let_def)
  have 1: "format_time ?R sample_now default_format (Some ''Mars/Phobos'') = Inr ''2024-03-15 04:34:56''"
    using format_time_no_zoneinfo[OF n, of "''Mars/Phobos''" sample_now default_format]
      sample_now_utc u
    by (simp add: sample_runtime_def)
  have h: "timezone ?a = Some ''Mars/Phobos''" "''Mars/Phobos'' \<noteq> []" "\<not> unix ?a"
    "\<not> truthy (timestamp ?a)" "\<not> truthy (diff ?a)"
    by (simp_all add: sample_args_def)
  have f: "format ?a = default_format" by (simp add: sample_args_def)
  have 2: "time_main ?R ?a = ([label_system_time @ ''2024-03-15 12:34:56'', zoneinfo_warning], None)"
    using time_main_timezone[OF h, of ?R] now f l by (simp add: sample_runtime_def)
  show ?thesis using 1 2 by simp
qed

text \<open>
  C3, as the code has it. Let a non-empty time zone be requested (and none of the
  other modes). Where zoneinfo support is present and the identifier does not
  resolve, \<open>format_time\<close> raises, and \<open>main\<close> prints the system-time line, then the
  invalid-time-zone line naming the identifier, then the line of example
  identifiers, and no rendering for that zone. Where zoneinfo support is absent,
  \<open>main\<close> prints the system-time line and the fixed warning, and \<open>format_time\<close>
  itself renders the instant in UTC.
\<close>

theorem unresolved_timezone_reported:
  assumes "timezone a = Some key" and "key \<noteq> []"
    and "\<not> unix a" and "\<not> truthy (timestamp a)" and "\<not> truthy (diff a)"
  shows "(\<forall>zoneinfo e. ZoneInfo R = Some zoneinfo \<and> zoneinfo key = Inl e \<longrightarrow>
            format_time R dt fmt (Some key) = Inl e
          \<and> time_main R a =
              ([label_system_time
                  @ strftime R (datetime_now R) (token_subst (datetime_now R) (format a)),
                label_invalid_zone @ key, common_zones], None))
       \<and> (ZoneInfo R = None \<longrightarrow>
            format_time R dt fmt (Some key) =
              Inr (strftime R (astimezone R dt timezone_utc)
                     (token_subst (astimezone R dt timezone_utc) fmt))
          \<and> time_main R a =
              ([label_system_time
                  @ strftime R (datetime_now R) (token_subst (datetime_now R) (format a)),
                zoneinfo_warning], None))"
proof (intro conjI allI impI)
  fix zoneinfo e
  assume z: "ZoneInfo R = Some zoneinfo \<and> zoneinfo key = Inl e"
  then show "format_time R dt fmt (Some key) = Inl e"
    using assms(2) by (simp add: format_time_unresolved)
  have "format_time R (datetime_now R) (format a) (Some key) = Inl e"
    using z assms(2) by (simp add: format_time_unresolved)
  then show "time_main R a =
      ([label_system_time @ strftime R (datetime_now R) (token_subst (datetime_now R) (format a)),
        label_invalid_zone @ key, common_zones], None)"
    using z by (simp add: time_main_timezone[OF assms])
next
  assume n: "ZoneInfo R = None"
  then show "format_time R dt fmt (Some key) =
      Inr (strftime R (astimezone R dt timezone_utc) (token_subst (astimezone R dt timezone_utc) fmt))"
    using assms(2) by (simp add: format_time_no_zoneinfo)
  show "time_main R a =
      ([label_system_time @ strftime R (datetime_now R) (token_subst (datetime_now R) (format a)),
        zoneinfo_warning], None)"
    using n by (simp add: time_main_timezone[OF assms])
qed

text \<open>
  C3, witness: the identifier \<open>Mars/Phobos\<close> on the sample host, whose database
  does not have it; and a request on the same host without zoneinfo support.
\<close>

theorem unresolved_timezone_reported_witness:
  "time_main (sample_runtime sample_now) (sample_args\<lparr>timezone := Some ''Mars/Phobos''\<rparr>)
     = ([label_system_time @ ''2024-03-15 12:34:56'', label_invalid_zone @ ''Mars/Phobos'',
         common_zones], None)
   \<and> format_time (sample_runtime sample_now) sample_now default_format (Some ''Mars/Phobos'')
     = Inl ZoneInfoNotFoundError
   \<and> time_main ((sample_runtime sample_now)\<lparr>ZoneInfo := None\<rparr>)
         (sample_args\<lparr>timezone := Some ''Asia/Tokyo''\<rparr>)
     = ([label_system_time @ ''2024-03-15 12:34:56'', zoneinfo_warning], None)"
proof -
  let ?R = "sample_runtime sample_now"
  let ?N = "(sample_runtime sample_now)\<lparr>ZoneInfo := None\<rparr>"
  let ?a = "sample_args\<lparr>timezone := Some ''Mars/Phobos''\<rparr>"
  let ?b = "sample_args\<lparr>timezone := Some ''Asia/Tokyo''\<rparr>"
  have z: "ZoneInfo ?R = Some zone_table \<and> zone_table ''Mars/Phobos'' = Inl ZoneInfoNotFoundError"
    by (simp add: lib_eval)
  have n: "ZoneInfo ?N = None" by simp
  have now: "datetime_now ?R = sample_now" "datetime_now ?N = sample_now"
    by (simp_all add: datetime_now_def sample_runtime_def sample_now_def naive_def)
  have sf: "strftime ?R = c_strftime" "strftime ?N = c_strftime"
    "format ?a = default_format" "format ?b = default_format"
    by (simp_all add: sample_runtime_def sample_args_def)
  have l: "c_strftime sample_now (token_subst sample_now default_format) = ''2024-03-15 12:34:56''"
    by (simp add: token_subst_def default_format_def lib_eval cal_eval str_eval Let_def)
  have s: "strftime ?R (datetime_now ?R) (token_subst (datetime_now ?R) (format ?a))
      = ''2024-03-15 12:34:56''"
    "strftime ?N (datetime_now ?N) (token_subst (datetime_now ?N) (format ?b))
      = ''2024-03-15 12:34:56''"
    using now sf l by simp_all
  have h: "timezone ?a = Some ''Mars/Phobos''" "''Mars/Phobos'' \<noteq> []" "\<not> unix ?a"
    "\<not> truthy (timestamp ?a)" "\<not> truthy (diff ?a)"
    by (simp_all add: sample_args_def)
  have k: "timezone ?b = Some ''Asia/Tokyo''" "''Asia/Tokyo'' \<noteq> []" "\<not> unix ?b"
    "\<not> truthy (timestamp ?b)" "\<not> truthy (diff ?b)"
    by (simp_all add: sample_args_def)
  from unresolved_timezone_reported[OF h, of ?R sample_now default_format] z s(1)
  have 1: "time_main ?R ?a
     = ([label_system_time @ ''2024-03-15 12:34:56'', label_invalid_zone @ ''Mars/Phobos'',
         common_zones], None)
   \<and> format_time ?R sample_now default_format (Some ''Mars/Phobos'') = Inl ZoneInfoNotFoundError"
    by simp
  from unresolved_timezone_reported[OF k, of ?N sample_now default_format] n s(2)
  have 2: "time_main ?N ?b = ([label_system_time @ ''2024-03-15 12:34:56'', zoneinfo_warning], None)"
    by simp
  show ?thesis using 1 2 by simp
qed

text \<open>A zone the database has is rendered in that zone (Tokyo is an hour ahead of the host).\<close>

lemma format_time_known_zone:
  "format_time (sample_runtime sample_now) sample_now default_format (Some ''Asia/Tokyo'')
     = Inr ''2024-03-15 13:34:56''"
  by (simp add: format_time_def astimezone_def token_subst_def default_format_def lib_eval
      cal_eval str_eval Let_def)

subsection \<open>format_time: the replacements\<close>

text \<open>
  A replacement whose token starts with a letter passes over a run of digits, so the
  three digits of the milliseconds are never changed by the replacements after them.
\<close>

lemma replace_skips_digits:
  assumes "list_all is_digit s" and "old \<noteq> []" and "\<not> is_digit (hd old)"
  shows "replace old new (s @ t) = s @ replace old new t"
  using assms
proof (induction s)
  case Nil
  then show ?case by simp
next
  case (Cons c s)
  then obtain x xs where o: "old = x # xs" by (cases old) auto
  with Cons have "x \<noteq> c" by auto
  with Cons o show ?case by simp
qed

lemma digit_char_is_digit: "d < 10 \<Longrightarrow> is_digit (digit_char d)"
proof -
  assume "d < 10"
  then have "d \<in> {0, 1, 2, 3, 4, 5, 6, 7, 8, 9}" by auto
  then show ?thesis by (auto simp: is_digit_def digit_char_def)
qed

lemma str_nat_digits: "list_all is_digit (str_nat n)"
proof (induction n rule: str_nat.induct)
  case (1 n)
  show ?case
  proof (cases "n < 10")
    case True
    then show ?thesis by (subst str_nat.simps) (simp add: digit_char_is_digit)
  next
    case False
    with 1 show ?thesis by (subst str_nat.simps) (simp add: digit_char_is_digit)
  qed
qed

lemma zfill_digits: "list_all is_digit (zfill w (str_nat n))"
proof -
  have "is_digit CHR ''0''" by (simp add: is_digit_def)
  then have "list_all is_digit (replicate k CHR ''0'')" for k
    by (simp add: list_all_iff)
  then show ?thesis by (simp add: zfill_def str_nat_digits)
qed

lemma token_subst_seconds_millis:
  "token_subst dt ''ssSSS'' = ''%'' @ zfill 3 (str_nat (microsecond dt div 1000)) @ ''S''"
proof -
  define ms where "ms = zfill 3 (str_nat (microsecond dt div 1000))"
  have d: "list_all is_digit ms" unfolding ms_def by (rule zfill_digits)
  have r: "replace old new (ms @ t) = ms @ replace old new t"
    if "old \<noteq> []" "\<not> is_digit (hd old)" for old new t
    using d that by (rule replace_skips_digits)
  have nd: "\<not> is_digit CHR ''d''" "\<not> is_digit CHR ''A''" "\<not> is_digit CHR ''a''"
    by (simp_all add: is_digit_def)
  show ?thesis
    unfolding token_subst_def Let_def ms_def[symmetric]
    by (simp add: r nd)
qed

lemma single_pass_seconds_millis:
  "single_pass (token_table dt) ''ssSSS'' = ''%S'' @ zfill 3 (str_nat (microsecond dt div 1000))"
  by (simp add: token_table_def)

lemma token_subst_differs:
  "token_subst dt ''ssSSS'' \<noteq> single_pass (token_table dt) ''ssSSS''"
proof -
  define ms where "ms = zfill 3 (str_nat (microsecond dt div 1000))"
  have "list_all is_digit ms" unfolding ms_def by (rule zfill_digits)
  moreover have "length ms \<ge> 1" 
    unfolding ms_def zfill_def by (subst str_nat.simps) (simp split: if_splits)
  ultimately obtain c cs where m: "ms = c # cs" "is_digit c" by (cases ms) auto
  then have "c \<noteq> CHR ''S''" by (auto simp: is_digit_def)
  then show ?thesis
    unfolding token_subst_seconds_millis single_pass_seconds_millis ms_def[symmetric] m by simp
qed

text \<open>
  C1. The claim says no replacement text is ever taken for a token by a later
  replacement. The code replaces \<open>YYYY\<close> before \<open>YY\<close> and \<open>dddd\<close> before
  \<open>ddd\<close>, but \<open>ss\<close> before \<open>SSS\<close>, and it marks the fields with the directives
  \<open>%m\<close>, \<open>%d\<close>, \<open>%S\<close>, whose letters the later tokens \<open>mm\<close>, \<open>ddd\<close>,
  \<open>dddd\<close> and \<open>SSS\<close> are made of. In \<open>ssSSS\<close> (seconds, then milliseconds) the
  \<open>S\<close> of the placeholder \<open>%S\<close> is taken as the first letter of \<open>SSS\<close>: at every
  instant \<open>strftime\<close> is handed \<open>%\<close>, the three digits and \<open>S\<close>, where the tokens
  read one by one give \<open>%S\<close> and the three digits. At 12:34:56.789 that is
  \<open>%789S\<close> against \<open>%S789\<close>; likewise in \<open>HHmmssSSS\<close>; and \<open>MMm\<close> (the month
  and a letter) is printed as \<open>%M\<close> instead of \<open>03m\<close>, the \<open>m\<close> of \<open>%m\<close> having
  been taken as the first letter of \<open>mm\<close>.
\<close>

theorem token_subst_rereads_placeholder:
  "token_subst dt ''ssSSS'' = ''%'' @ zfill 3 (str_nat (microsecond dt div 1000)) @ ''S''
   \<and> single_pass (token_table dt) ''ssSSS'' = ''%S'' @ zfill 3 (str_nat (microsecond dt div 1000))
   \<and> token_subst dt ''ssSSS'' \<noteq> single_pass (token_table dt) ''ssSSS''
   \<and> token_subst sample_now ''ssSSS'' = ''%789S''
   \<and> single_pass (token_table sample_now) ''ssSSS'' = ''%S789''
   \<and> token_subst sample_now ''HHmmssSSS'' = ''%H%M%789S''
   \<and> single_pass (token_table sample_now) ''HHmmssSSS'' = ''%H%M%S789''
   \<and> format_time (sample_runtime sample_now) sample_now ''MMm'' None = Inr ''%M''
   \<and> c_strftime sample_now (single_pass (token_table sample_now) ''MMm'') = ''03m''"
proof -
  have "token_subst sample_now ''ssSSS'' = ''%789S''
   \<and> single_pass (token_table sample_now) ''ssSSS'' = ''%S789''
   \<and> token_subst sample_now ''HHmmssSSS'' = ''%H%M%789S''
   \<and> single_pass (token_table sample_now) ''HHmmssSSS'' = ''%H%M%S789''
   \<and> format_time (sample_runtime sample_now) sample_now ''MMm'' None = Inr ''%M''
   \<and> c_strftime sample_now (single_pass (token_table sample_now) ''MMm'') = ''03m''"
    by (simp add: time_eval lib_eval cal_eval str_eval word_eval Let_def)
  then show ?thesis
    using token_subst_seconds_millis[of dt] single_pass_seconds_millis[of dt]
      token_subst_differs[of dt]
    by blast
qed

text \<open>On the default format the replacements and the single pass agree.\<close>

lemma token_subst_default_format:
  "token_subst sample_now default_format = ''%Y-%m-%d %H:%M:%S''"
  "single_pass (token_table sample_now) default_format = ''%Y-%m-%d %H:%M:%S''"
  by (simp_all add: time_eval lib_eval cal_eval str_eval word_eval Let_def)

end
